theory Spec2Isabelle
  imports
    Complex_Main
    "HOL-Library.Word"
    "HOL-Library.Multiset"
    "HOL-Library.AList"
    "HOL-Library.Char_ord"
    "HOL-Library.List_Lexorder"
begin

section \<open>TraceLite: the trace reconstructor and the read API\<close>

text \<open>
  A shallow embedding of the collector's reconstructor (package \<open>reconstruct\<close>), of the
  ingest handler (package \<open>server\<close>), of the event normaliser (package \<open>model\<close>) and of
  the helpers of the read API (package \<open>handlers\<close>) that the specification talks about.

  Conventions of the embedding.
  \<^item> A Go \<open>time.Time\<close> is an \<open>int\<close>: the nanoseconds since the zero instant
    (January 1, year 1, 00:00:00 UTC), so \<open>IsZero\<close> is \<open>t = 0\<close>. A \<open>time.Duration\<close> is
    an \<open>int\<close> of nanoseconds in the range of \<open>int64\<close>.
  \<^item> \<open>uint16\<close>, \<open>uint32\<close> and \<open>uint64\<close> are words; a conversion \<open>uint32(x)\<close> of a
    signed value is \<open>word_of_int\<close>, which wraps as Go does.
  \<^item> A Go map is an association list with one entry per key; \<open>m[k]\<close> is \<open>map_of m k\<close>,
    \<open>m[k] = v\<close> is \<open>AList.update k v m\<close>, \<open>delete(m, k)\<close> is \<open>AList.delete k m\<close>. Go does
    not fix the order in which \<open>range\<close> visits a map: in the model a \<open>range\<close> loop runs in
    list order, and the list order is arbitrary.
  \<^item> A pointer to a span state is the key under which the state is stored.
  \<^item> A timestamp column of a row (\<open>"2006-01-02 15:04:05.000"\<close>) is the instant the text
    denotes: the time cut to whole milliseconds.
\<close>

type_synonym u16 = "16 word"
type_synonym u32 = "32 word"
type_synonym u64 = "64 word"
type_synonym time = int
type_synonym duration = int

subsection \<open>Package time\<close>

definition IsZero :: "time \<Rightarrow> bool" where
  "IsZero t = (t = 0)"

definition Before :: "time \<Rightarrow> time \<Rightarrow> bool" where
  "Before t u = (t < u)"

definition After :: "time \<Rightarrow> time \<Rightarrow> bool" where
  "After t u = (t > u)"

definition Millisecond :: duration where
  "Millisecond = 1000000"

definition Hour :: duration where
  "Hour = 3600000000000"

definition maxDuration :: duration where
  "maxDuration = 2 ^ 63 - 1"

definition minDuration :: duration where
  "minDuration = - (2 ^ 63)"

text \<open>\<open>t.Sub(u)\<close> saturates at the largest and the smallest duration.\<close>

definition Sub :: "time \<Rightarrow> time \<Rightarrow> duration" where
  "Sub t u = (if t - u > maxDuration then maxDuration
              else if t - u < minDuration then minDuration else t - u)"

text \<open>\<open>d.Milliseconds()\<close> is \<open>int64(d) / 1e6\<close>, and Go's division truncates towards zero.\<close>

definition Milliseconds :: "duration \<Rightarrow> int" where
  "Milliseconds d = (if d < 0 then - ((- d) div 1000000) else d div 1000000)"

text \<open>\<open>time.Duration(ms) * time.Millisecond\<close> for a \<open>uint32\<close>: no overflow in \<open>int64\<close>.\<close>

definition ms_duration :: "u32 \<Rightarrow> duration" where
  "ms_duration ms = uint ms * Millisecond"

text \<open>The instant that \<open>FormatCHTime\<close> writes: the time cut to the millisecond.\<close>

definition FormatCHTime :: "time \<Rightarrow> time" where
  "FormatCHTime t = t - t mod Millisecond"

text \<open>\<open>toMinute\<close>: the row's timestamp with seconds and milliseconds set to zero.\<close>

definition toMinute :: "time \<Rightarrow> time" where
  "toMinute t = t - t mod (60000 * Millisecond)"

subsection \<open>Package model: the rows\<close>

record RawLogRow =
  raw_TS :: time
  raw_Service :: string
  raw_Env :: string
  raw_Host :: string
  raw_Version :: string
  raw_Level :: string
  raw_Message :: string
  raw_TraceID :: string
  raw_SpanID :: string
  raw_ParentSpanID :: string
  raw_Event :: string
  raw_Route :: string
  raw_Method :: string
  raw_StatusCode :: u16
  raw_DurationMs :: u32
  raw_Attrs :: "(string \<times> string) list"
  raw_RawJSON :: string

record SpanRow =
  TraceID :: string
  SpanID :: string
  ParentSpanID :: string
  Service :: string
  Env :: string
  Host :: string
  Version :: string
  Operation :: string
  StartTS :: time
  EndTS :: time
  DurationMs :: u32
  SelfTimeMs :: u32
  StatusCode :: u16
  IsError :: "8 word"
  Source :: string

record TraceRow =
  tr_TraceID :: string
  tr_Env :: string
  tr_RootService :: string
  tr_StartTS :: time
  tr_EndTS :: time
  tr_DurationMs :: u32
  tr_SpanCount :: u16
  tr_ServiceCount :: u16
  tr_ErrorCount :: u16
  tr_CriticalPathMs :: u32
  tr_Versions :: "string list"

subsection \<open>Package reconstruct: the state\<close>

record spanState =
  traceID :: string
  spanID :: string
  parentSpanID :: string
  service :: string
  env :: string
  host :: string
  version :: string
  operation :: string
  startTs :: time
  endTs :: time
  durationMs :: u32
  statusCode :: u16
  isError :: bool
  source :: string

record traceState =
  t_id :: string
  t_env :: string
  updatedAt :: time
  spans :: "(string \<times> spanState) list"

text \<open>The field \<open>traces\<close> of the \<open>Reconstructor\<close>; the window is a parameter of the flush.\<close>

type_synonym traces = "(string \<times> traceState) list"

definition chooseOperation :: "string \<Rightarrow> string \<Rightarrow> string" where
  "chooseOperation route fallback =
     (if route \<noteq> [] then route else if fallback \<noteq> [] then fallback else ''unknown-op'')"

subsection \<open>\<open>Reconstructor.Add\<close>\<close>

text \<open>
  The body of the loop of \<open>Add\<close> is split into the parts that the source writes one after
  the other: the late-arriving fields, the status, and the timing by kind of event.
\<close>

definition newSpan :: "RawLogRow \<Rightarrow> string \<Rightarrow> spanState" where
  "newSpan row sid =
     \<lparr> traceID = raw_TraceID row, spanID = sid, parentSpanID = raw_ParentSpanID row,
       service = raw_Service row, env = raw_Env row, host = raw_Host row,
       version = raw_Version row,
       operation = chooseOperation (raw_Route row) (raw_Message row),
       startTs = 0, endTs = 0, durationMs = 0, statusCode = 0, isError = False,
       source = ''explicit'' \<rparr>"

definition lateFields :: "RawLogRow \<Rightarrow> spanState \<Rightarrow> spanState" where
  "lateFields row s0 =
     (let s1 = (if raw_ParentSpanID row \<noteq> [] then s0\<lparr>parentSpanID := raw_ParentSpanID row\<rparr> else s0);
          s2 = (if service s1 = [] then s1\<lparr>service := raw_Service row\<rparr> else s1);
          s3 = (if version s2 = [] then s2\<lparr>version := raw_Version row\<rparr> else s2);
          s4 = (if host s3 = [] then s3\<lparr>host := raw_Host row\<rparr> else s3)
      in if operation s4 = []
         then s4\<lparr>operation := chooseOperation (raw_Route row) (raw_Message row)\<rparr> else s4)"

definition foldStatus :: "RawLogRow \<Rightarrow> spanState \<Rightarrow> spanState" where
  "foldStatus row s0 =
     (let s1 = (if raw_StatusCode row \<ge> 400
                then s0\<lparr>isError := True, statusCode := raw_StatusCode row\<rparr> else s0)
      in if raw_StatusCode row > 0 then s1\<lparr>statusCode := raw_StatusCode row\<rparr> else s1)"

definition foldTiming :: "RawLogRow \<Rightarrow> time \<Rightarrow> spanState \<Rightarrow> spanState" where
  "foldTiming row ts s0 =
     (if raw_Event row = ''start'' then
        (if IsZero (startTs s0) \<or> Before ts (startTs s0) then s0\<lparr>startTs := ts\<rparr> else s0)
      else if raw_Event row = ''end'' then
        (let s1 = (if IsZero (endTs s0) \<or> After ts (endTs s0) then s0\<lparr>endTs := ts\<rparr> else s0)
         in if raw_DurationMs row > 0 then s1\<lparr>durationMs := raw_DurationMs row\<rparr> else s1)
      else if raw_DurationMs row > 0 then
        (let s1 = (if IsZero (endTs s0) \<or> After ts (endTs s0) then s0\<lparr>endTs := ts\<rparr> else s0);
             candidateStart = ts + (- ms_duration (raw_DurationMs row));
             s2 = (if IsZero (startTs s1) \<or> Before candidateStart (startTs s1)
                   then s1\<lparr>startTs := candidateStart\<rparr> else s1)
         in s2\<lparr>durationMs := raw_DurationMs row\<rparr>)
      else s0)"

text \<open>
  The synthetic span id is \<open>"implicit-"\<close> followed by the formatted time; \<open>fmt\<close> is the
  text that \<open>time.Format\<close> writes for the layout \<open>"2006-01-02 15:04:05.000"\<close>.
\<close>

definition resolveSpanID :: "(time \<Rightarrow> string) \<Rightarrow> RawLogRow \<Rightarrow> time \<Rightarrow> string" where
  "resolveSpanID fmt row ts =
     (if raw_SpanID row = [] then ''implicit-'' @ fmt ts else raw_SpanID row)"

definition addOne :: "(time \<Rightarrow> string) \<Rightarrow> RawLogRow \<Rightarrow> time \<Rightarrow> traces \<Rightarrow> traces" where
  "addOne fmt row ts tr =
     (let t0 = (case map_of tr (raw_TraceID row) of
                  None \<Rightarrow> \<lparr> t_id = raw_TraceID row, t_env = raw_Env row, updatedAt = 0, spans = [] \<rparr>
                | Some t \<Rightarrow> t);
          t1 = (if After ts (updatedAt t0) then t0\<lparr>updatedAt := ts\<rparr> else t0);
          sid = resolveSpanID fmt row ts;
          s0 = (case map_of (spans t1) sid of None \<Rightarrow> newSpan row sid | Some s \<Rightarrow> s);
          s1 = foldTiming row ts (foldStatus row (lateFields row s0))
      in AList.update (raw_TraceID row) (t1\<lparr>spans := AList.update sid s1 (spans t1)\<rparr>) tr)"

text \<open>
  \<open>Add\<close> reads \<open>eventTimes[i]\<close> for every row: with fewer times than rows the index is out
  of range and Go panics, after the rows before it were folded. \<open>Inl\<close> is the panic, with
  the state it leaves behind.
\<close>

fun Add :: "(time \<Rightarrow> string) \<Rightarrow> RawLogRow list \<Rightarrow> time list \<Rightarrow> traces \<Rightarrow> traces + traces" where
  "Add fmt [] eventTimes tr = Inr tr"
| "Add fmt (row # rows) [] tr = Inl tr"
| "Add fmt (row # rows) (ts # eventTimes) tr = Add fmt rows eventTimes (addOne fmt row ts tr)"

subsection \<open>\<open>finalizeSpans\<close>\<close>

definition boolToUint8 :: "bool \<Rightarrow> 8 word" where
  "boolToUint8 v = (if v then 1 else 0)"

text \<open>
  The first loop: \<open>children[p]\<close> holds a pointer to every span state whose parent id is
  \<open>p\<close>, for non-empty \<open>p\<close>.
\<close>

definition childrenOf :: "(string \<times> spanState) list \<Rightarrow> string \<Rightarrow> string list" where
  "childrenOf sp p = (if p = [] then [] else map fst (filter (\<lambda>(k, s). parentSpanID s = p) sp))"

text \<open>The three rules that infer a missing bound; \<open>now\<close> is the reading of \<open>time.Now()\<close>.\<close>

definition inferBounds :: "time \<Rightarrow> spanState \<Rightarrow> spanState \<times> string" where
  "inferBounds now s0 =
     (let (s1, src1) =
            (if IsZero (startTs s0) \<and> \<not> IsZero (endTs s0) \<and> durationMs s0 > 0
             then (s0\<lparr>startTs := endTs s0 + (- ms_duration (durationMs s0))\<rparr>, ''inferred'')
             else (s0, source s0));
          (s2, src2) =
            (if IsZero (endTs s1) \<and> \<not> IsZero (startTs s1)
             then ((if durationMs s1 > 0
                    then s1\<lparr>endTs := startTs s1 + ms_duration (durationMs s1)\<rparr>
                    else s1\<lparr>endTs := startTs s1\<rparr>), ''inferred'')
             else (s1, src1))
      in if IsZero (startTs s2)
         then (s2\<lparr>startTs := now, endTs := now\<rparr>, ''inferred'')
         else (s2, src2))"

definition spanDuration :: "spanState \<Rightarrow> spanState \<times> u32" where
  "spanDuration s0 =
     (if durationMs s0 = 0
      then (let s1 = (if Before (endTs s0) (startTs s0) then s0\<lparr>endTs := startTs s0\<rparr> else s0)
            in (s1, word_of_int (Milliseconds (Sub (endTs s1) (startTs s1)))))
      else (s0, durationMs s0))"

definition childDur :: "spanState \<Rightarrow> u32" where
  "childDur child =
     (if durationMs child = 0 \<and> \<not> IsZero (startTs child) \<and> \<not> IsZero (endTs child)
      then word_of_int (Milliseconds (Sub (endTs child) (startTs child)))
      else durationMs child)"

definition childTotalOf :: "(string \<times> spanState) list \<Rightarrow> string list \<Rightarrow> u32" where
  "childTotalOf cur ptrs =
     fold (\<lambda>p total. case map_of cur p of None \<Rightarrow> total | Some child \<Rightarrow> total + childDur child)
       ptrs 0"

definition selfTimeOf :: "u32 \<Rightarrow> u32 \<Rightarrow> u32" where
  "selfTimeOf duration childTotal =
     (if childTotal < duration then duration - childTotal else duration)"

text \<open>
  One round of the second loop, for the span stored under \<open>k\<close>. The span states are
  changed in place, so a child that was finalised before its parent is read with the
  bounds written then: \<open>cur\<close> is the store as the rounds so far left it.
\<close>

definition finalizeOne ::
  "time \<Rightarrow> (string \<Rightarrow> string list) \<Rightarrow> string \<Rightarrow> (string \<times> spanState) list \<times> SpanRow list
     \<Rightarrow> (string \<times> spanState) list \<times> SpanRow list" where
  "finalizeOne now children k st =
     (case map_of (fst st) k of
        None \<Rightarrow> st
      | Some s0 \<Rightarrow>
          (let (s1, src) = inferBounds now s0;
               (s2, duration) = spanDuration s1;
               cur = AList.update k s2 (fst st);
               childTotal = childTotalOf cur (children (spanID s2));
               selfTime = selfTimeOf duration childTotal
           in (cur, snd st @
                 [\<lparr> TraceID = traceID s2, SpanID = spanID s2, ParentSpanID = parentSpanID s2,
                    Service = service s2, Env = env s2, Host = host s2, Version = version s2,
                    Operation = operation s2, StartTS = FormatCHTime (startTs s2),
                    EndTS = FormatCHTime (endTs s2), DurationMs = duration,
                    SelfTimeMs = selfTime, StatusCode = statusCode s2,
                    IsError = boolToUint8 (isError s2), Source = src \<rparr>])))"

text \<open>\<open>clock k\<close> is what \<open>time.Now()\<close> returns while the span under \<open>k\<close> is finalised.\<close>

definition finalizeSpans :: "(string \<Rightarrow> time) \<Rightarrow> traceState \<Rightarrow> SpanRow list" where
  "finalizeSpans clock t =
     snd (fold (\<lambda>k. finalizeOne (clock k) (childrenOf (spans t)) k)
            (map fst (spans t)) (spans t, []))"

subsection \<open>\<open>criticalPath\<close>\<close>

definition childIDs :: "(string \<times> string list) list \<Rightarrow> string \<Rightarrow> string list" where
  "childIDs children i = (case map_of children i of None \<Rightarrow> [] | Some cs \<Rightarrow> cs)"

definition spanDur :: "(string \<times> SpanRow) list \<Rightarrow> string \<Rightarrow> u32" where
  "spanDur byID i = (case map_of byID i of None \<Rightarrow> 0 | Some s \<Rightarrow> DurationMs s)"

text \<open>
  The closure \<open>dfs\<close>. The source sets \<open>visiting[id]\<close> before it descends into the children
  and clears it after, and writes it nowhere else: during a call \<open>visiting\<close> holds the ids
  of the calls on the stack, and is the same after a call as before. The model passes it
  down as a set; the memo table is changed by the calls and is passed through.
\<close>

function dfs ::
  "(string \<times> SpanRow) list \<Rightarrow> (string \<times> string list) list \<Rightarrow> string set \<Rightarrow> string
     \<Rightarrow> (string \<rightharpoonup> u32) \<Rightarrow> u32 \<times> (string \<rightharpoonup> u32)" where
  "dfs byID children visiting i memo =
     (case memo i of
        Some v \<Rightarrow> (v, memo)
      | None \<Rightarrow>
          if i \<in> visiting then (0, memo)
          else
            (let r = fold (\<lambda>c acc.
                        (let d = dfs byID children (insert i visiting) c (snd acc)
                         in (if fst d > fst acc then fst d else fst acc, snd d)))
                       (childIDs children i) (0, memo);
                 total = spanDur byID i + fst r
             in (total, (snd r)(i \<mapsto> total))))"
  by pat_completeness auto
termination
proof (relation "measure (\<lambda>(byID, children, visiting, i, memo). card (fst ` set children - visiting))")
  show "wf (measure (\<lambda>(byID, children, visiting, i, memo). card (fst ` set children - visiting)))"
    by simp
next
  fix byID :: "(string \<times> SpanRow) list" and children :: "(string \<times> string list) list"
    and visiting :: "string set" and i c :: string and memo :: "string \<rightharpoonup> u32"
    and acc :: "u32 \<times> (string \<rightharpoonup> u32)"
  assume "i \<notin> visiting" and c: "c \<in> set (childIDs children i)"
  from c obtain cs where "map_of children i = Some cs"
    by (cases "map_of children i") (auto simp: childIDs_def)
  then have "(i, cs) \<in> set children"
    by (rule map_of_SomeD)
  then have "i \<in> fst ` set children"
    by force
  with \<open>i \<notin> visiting\<close>
  have "fst ` set children - insert i visiting \<subset> fst ` set children - visiting"
    by auto
  then have "card (fst ` set children - insert i visiting) < card (fst ` set children - visiting)"
    by (intro psubset_card_mono) auto
  then show "((byID, children, insert i visiting, c, snd acc), (byID, children, visiting, i, memo))
      \<in> measure (\<lambda>(byID, children, visiting, i, memo). card (fst ` set children - visiting))"
    by simp
qed

declare dfs.simps [simp del]

text \<open>
  The seeds are the spans whose parent is empty or not in the trace; when no seed scored
  above zero, every span is a seed. The memo table lives across both loops.
\<close>

definition seedStep ::
  "(string \<times> SpanRow) list \<Rightarrow> (string \<times> string list) list \<Rightarrow> string
     \<Rightarrow> u32 \<times> (string \<rightharpoonup> u32) \<Rightarrow> u32 \<times> (string \<rightharpoonup> u32)" where
  "seedStep byID children i acc =
     (let d = dfs byID children {} i (snd acc)
      in (if fst d > fst acc then fst d else fst acc, snd d))"

definition criticalPath :: "(string \<times> SpanRow) list \<Rightarrow> (string \<times> string list) list \<Rightarrow> u32" where
  "criticalPath byID children =
     (let r1 = fold (\<lambda>(i, s) acc.
                  if ParentSpanID s \<noteq> [] \<and> map_of byID (ParentSpanID s) \<noteq> None then acc
                  else seedStep byID children i acc)
                byID (0, Map.empty)
      in if fst r1 = 0
         then fst (fold (\<lambda>(i, s) acc. seedStep byID children i acc) byID r1)
         else fst r1)"

subsection \<open>\<open>buildTraceRow\<close>\<close>

text \<open>
  The variables of the loop of \<open>buildTraceRow\<close>. The sets \<open>services\<close> and \<open>versions\<close> are
  lists without repetition. \<open>parseCHTime\<close> of a timestamp that \<open>FormatCHTime\<close> wrote is
  the instant of the row.
\<close>

record rollup =
  ru_start :: time
  ru_end :: time
  ru_services :: "string list"
  ru_versions :: "string list"
  ru_errorCount :: nat
  ru_rootService :: string
  ru_byID :: "(string \<times> SpanRow) list"
  ru_children :: "(string \<times> string list) list"

definition rollupStep :: "SpanRow \<Rightarrow> rollup \<Rightarrow> rollup" where
  "rollupStep s r0 =
     (let r1 = r0\<lparr>ru_byID := AList.update (SpanID s) s (ru_byID r0)\<rparr>;
          r2 = (if ParentSpanID s \<noteq> []
                then r1\<lparr>ru_children :=
                        AList.update (ParentSpanID s)
                          (childIDs (ru_children r1) (ParentSpanID s) @ [SpanID s]) (ru_children r1)\<rparr>
                else r1);
          r3 = (if Before (StartTS s) (ru_start r2)
                then r2\<lparr>ru_start := StartTS s, ru_rootService := Service s\<rparr> else r2);
          r4 = (if After (EndTS s) (ru_end r3) then r3\<lparr>ru_end := EndTS s\<rparr> else r3);
          r5 = r4\<lparr>ru_services := List.insert (Service s) (ru_services r4),
                    ru_versions := List.insert (Version s) (ru_versions r4)\<rparr>
      in if IsError s = 1 then r5\<lparr>ru_errorCount := ru_errorCount r5 + 1\<rparr> else r5)"

text \<open>
  For no spans the source returns a row with only the id and the environment; its empty
  timestamps are written 0 here.
\<close>

fun buildTraceRow :: "string \<Rightarrow> string \<Rightarrow> SpanRow list \<Rightarrow> TraceRow" where
  "buildTraceRow e tid [] =
     \<lparr> tr_TraceID = tid, tr_Env = e, tr_RootService = [], tr_StartTS = 0, tr_EndTS = 0,
       tr_DurationMs = 0, tr_SpanCount = 0, tr_ServiceCount = 0, tr_ErrorCount = 0,
       tr_CriticalPathMs = 0, tr_Versions = [] \<rparr>"
| "buildTraceRow e tid (s0 # rest) =
     (let r = fold rollupStep (s0 # rest)
                \<lparr> ru_start = StartTS s0, ru_end = EndTS s0, ru_services = [], ru_versions = [],
                  ru_errorCount = 0, ru_rootService = Service s0, ru_byID = [], ru_children = [] \<rparr>
      in \<lparr> tr_TraceID = tid, tr_Env = e, tr_RootService = ru_rootService r,
           tr_StartTS = FormatCHTime (ru_start r), tr_EndTS = FormatCHTime (ru_end r),
           tr_DurationMs = word_of_int (Milliseconds (Sub (ru_end r) (ru_start r))),
           tr_SpanCount = of_nat (length (s0 # rest)),
           tr_ServiceCount = of_nat (length (ru_services r)),
           tr_ErrorCount = of_nat (ru_errorCount r),
           tr_CriticalPathMs = criticalPath (ru_byID r) (ru_children r),
           tr_Versions = sort (ru_versions r) \<rparr>)"

subsection \<open>Dependency edges\<close>

record edgeKey =
  bucket :: time
  ek_env :: string
  callerService :: string
  calleeService :: string
  callerVersion :: string
  calleeVersion :: string

record edgeState =
  durations :: "u32 list"
  errorCalls :: u64

text \<open>
  The row of \<open>dependency_edges_minute\<close>. The columns \<open>p50_ms\<close> and \<open>p95_ms\<close> are
  \<open>float32\<close> values that \<open>percentile\<close> reads at an index computed in \<open>float64\<close>; they are
  not part of the model.
\<close>

record DependencyEdgeRow =
  BucketTS :: time
  de_Env :: string
  CallerService :: string
  CalleeService :: string
  CallerVersion :: string
  CalleeVersion :: string
  Calls :: u64
  ErrorCalls :: u64
  MaxMs :: u32

definition edgeStep ::
  "(string \<times> SpanRow) list \<Rightarrow> SpanRow \<Rightarrow> (edgeKey \<times> edgeState) list \<Rightarrow> (edgeKey \<times> edgeState) list" where
  "edgeStep byID s agg =
     (if ParentSpanID s = [] then agg
      else case map_of byID (ParentSpanID s) of
        None \<Rightarrow> agg
      | Some p \<Rightarrow>
          if Service p = Service s then agg
          else
            (let k = \<lparr> bucket = toMinute (StartTS s), ek_env = Env s, callerService = Service p,
                       calleeService = Service s, callerVersion = Version p,
                       calleeVersion = Version s \<rparr>;
                 e0 = (case map_of agg k of None \<Rightarrow> \<lparr> durations = [], errorCalls = 0 \<rparr> | Some e \<Rightarrow> e);
                 e1 = e0\<lparr>durations := durations e0 @ [DurationMs s]\<rparr>;
                 e2 = (if IsError s = 1 then e1\<lparr>errorCalls := errorCalls e1 + 1\<rparr> else e1)
             in AList.update k e2 agg))"

definition accumulateEdges ::
  "SpanRow list \<Rightarrow> (edgeKey \<times> edgeState) list \<Rightarrow> (edgeKey \<times> edgeState) list" where
  "accumulateEdges rows agg =
     (let byID = fold (\<lambda>s m. AList.update (SpanID s) s m) rows []
      in fold (edgeStep byID) rows agg)"

definition collapseEdgeAgg :: "(edgeKey \<times> edgeState) list \<Rightarrow> DependencyEdgeRow list" where
  "collapseEdgeAgg agg =
     concat (map (\<lambda>(k, v).
        (let sorted = sort (durations v)
         in if length sorted = 0 then []
            else [\<lparr> BucketTS = bucket k, de_Env = ek_env k, CallerService = callerService k,
                    CalleeService = calleeService k, CallerVersion = callerVersion k,
                    CalleeVersion = calleeVersion k, Calls = of_nat (length sorted),
                    ErrorCalls = errorCalls v, MaxMs = last sorted \<rparr>])) agg)"

subsection \<open>\<open>Reconstructor.FlushNow\<close>\<close>

text \<open>
  The store client: \<open>InsertJSONEachRow\<close> takes a table and rows and returns an error or
  nothing.
\<close>

datatype payload =
  RawRows "RawLogRow list"
| SpanRows "SpanRow list"
| TraceRows "TraceRow list"
| EdgeRows "DependencyEdgeRow list"

type_synonym store = "string \<Rightarrow> payload \<Rightarrow> string option"

record flushLoop =
  fl_traces :: traces
  fl_spanRows :: "SpanRow list"
  fl_traceRows :: "TraceRow list"
  fl_edgeAgg :: "(edgeKey \<times> edgeState) list"

definition flushStep ::
  "duration \<Rightarrow> time \<Rightarrow> (string \<Rightarrow> string \<Rightarrow> time) \<Rightarrow> string \<times> traceState \<Rightarrow> flushLoop \<Rightarrow> flushLoop" where
  "flushStep window now clock kt st =
     (let trace_id = fst kt; t = snd kt
      in if Sub now (updatedAt t) < window then st
         else
           (let rows = finalizeSpans (clock trace_id) t
            in if length rows = 0 then st\<lparr>fl_traces := AList.delete trace_id (fl_traces st)\<rparr>
               else st\<lparr> fl_spanRows := fl_spanRows st @ rows,
                        fl_traceRows := fl_traceRows st @ [buildTraceRow (t_env t) trace_id rows],
                        fl_edgeAgg := accumulateEdges rows (fl_edgeAgg st),
                        fl_traces := AList.delete trace_id (fl_traces st) \<rparr>))"

text \<open>
  \<open>FlushNow\<close> returns the traces left in memory and the calls it made on the store, each
  with what the store answered. The source drops every answer (\<open>_ = r.ch.Insert...\<close>).
  \<open>now\<close> is the clock at the start of the flush, \<open>clock\<close> the clock in \<open>finalizeSpans\<close>.
\<close>

definition FlushNow ::
  "store \<Rightarrow> duration \<Rightarrow> time \<Rightarrow> (string \<Rightarrow> string \<Rightarrow> time) \<Rightarrow> traces
     \<Rightarrow> traces \<times> (string \<times> payload \<times> string option) list" where
  "FlushNow ch window now clock tr =
     (let st = fold (flushStep window now clock) tr
                 \<lparr> fl_traces = tr, fl_spanRows = [], fl_traceRows = [], fl_edgeAgg = [] \<rparr>;
          w1 = (if length (fl_spanRows st) > 0
                then [(''spans'', SpanRows (fl_spanRows st), ch ''spans'' (SpanRows (fl_spanRows st)))]
                else []);
          w2 = (if length (fl_traceRows st) > 0
                then [(''traces'', TraceRows (fl_traceRows st), ch ''traces'' (TraceRows (fl_traceRows st)))]
                else []);
          w3 = (if length (fl_edgeAgg st) > 0
                then (let edges = collapseEdgeAgg (fl_edgeAgg st)
                      in [(''dependency_edges_minute'', EdgeRows edges,
                           ch ''dependency_edges_minute'' (EdgeRows edges))])
                else [])
      in (fl_traces st, w1 @ w2 @ w3))"

subsection \<open>Package strings\<close>

text \<open>
  Go strings are byte strings in UTF-8. \<open>strings.TrimSpace\<close> removes the white space of
  Unicode from both ends: six ASCII characters and the code points U+0085, U+00A0, U+1680,
  U+2000 to U+200A, U+2028, U+2029, U+202F, U+205F and U+3000, here in their encodings.
\<close>

definition asciiSpace :: "char \<Rightarrow> bool" where
  "asciiSpace c = (c \<in> {CHR 0x09, CHR 0x0A, CHR 0x0B, CHR 0x0C, CHR 0x0D, CHR 0x20})"

definition unicodeSpaces :: "string list" where
  "unicodeSpaces =
     [[CHR 0xC2, CHR 0x85], [CHR 0xC2, CHR 0xA0], [CHR 0xE1, CHR 0x9A, CHR 0x80],
      [CHR 0xE2, CHR 0x80, CHR 0x80], [CHR 0xE2, CHR 0x80, CHR 0x81],
      [CHR 0xE2, CHR 0x80, CHR 0x82], [CHR 0xE2, CHR 0x80, CHR 0x83],
      [CHR 0xE2, CHR 0x80, CHR 0x84], [CHR 0xE2, CHR 0x80, CHR 0x85],
      [CHR 0xE2, CHR 0x80, CHR 0x86], [CHR 0xE2, CHR 0x80, CHR 0x87],
      [CHR 0xE2, CHR 0x80, CHR 0x88], [CHR 0xE2, CHR 0x80, CHR 0x89],
      [CHR 0xE2, CHR 0x80, CHR 0x8A], [CHR 0xE2, CHR 0x80, CHR 0xA8],
      [CHR 0xE2, CHR 0x80, CHR 0xA9], [CHR 0xE2, CHR 0x80, CHR 0xAF],
      [CHR 0xE2, CHR 0x81, CHR 0x9F], [CHR 0xE3, CHR 0x80, CHR 0x80]]"

text \<open>
  The number of bytes of the white-space character at the start of \<open>s\<close>, or 0.
  \<open>trimStart\<close> drops such characters while there is one; its test on the length never
  holds and is there for the termination proof.
\<close>

definition spaceLen :: "string list \<Rightarrow> string \<Rightarrow> nat" where
  "spaceLen pats s =
     (case s of
        [] \<Rightarrow> 0
      | c # r \<Rightarrow>
          if asciiSpace c then 1
          else (case find (\<lambda>w. take (length w) s = w) pats of None \<Rightarrow> 0 | Some w \<Rightarrow> length w))"

function trimStart :: "string list \<Rightarrow> string \<Rightarrow> string" where
  "trimStart pats s =
     (if spaceLen pats s = 0 \<or> length s < spaceLen pats s then s
      else trimStart pats (drop (spaceLen pats s) s))"
  by pat_completeness auto
termination
  by (relation "measure (\<lambda>(pats, s). length s)") auto

declare trimStart.simps [simp del]

definition TrimSpace :: "string \<Rightarrow> string" where
  "TrimSpace s =
     rev (trimStart (map rev unicodeSpaces) (rev (trimStart unicodeSpaces s)))"

definition HasPrefix :: "string \<Rightarrow> string \<Rightarrow> bool" where
  "HasPrefix s pre = (take (length pre) s = pre)"

definition TrimPrefix :: "string \<Rightarrow> string \<Rightarrow> string" where
  "TrimPrefix s pre = (if HasPrefix s pre then drop (length pre) s else s)"

text \<open>\<open>strings.Trim(s, "/")\<close> and \<open>strings.Split(s, "/")\<close>, for a separator of one byte.\<close>

definition TrimChar :: "char \<Rightarrow> string \<Rightarrow> string" where
  "TrimChar c s = rev (dropWhile (\<lambda>x. x = c) (rev (dropWhile (\<lambda>x. x = c) s)))"

fun SplitChar :: "char \<Rightarrow> string \<Rightarrow> string list" where
  "SplitChar c [] = [[]]"
| "SplitChar c (x # xs) =
     (if x = c then [] # SplitChar c xs
      else (case SplitChar c xs of [] \<Rightarrow> [[x]] | p # ps \<Rightarrow> (x # p) # ps))"

text \<open>
  \<open>strings.EqualFold\<close> against a word of ASCII letters none of which has a case variant
  outside ASCII (\<open>"gzip"\<close>, \<open>"Bearer"\<close>): equality up to the case of ASCII letters.
\<close>

definition asciiLower :: "char \<Rightarrow> char" where
  "asciiLower c =
     (if (65 :: nat) \<le> of_char c \<and> (of_char c :: nat) \<le> 90
      then char_of ((of_char c :: nat) + 32) else c)"

definition EqualFoldASCII :: "string \<Rightarrow> string \<Rightarrow> bool" where
  "EqualFoldASCII s t = (map asciiLower s = map asciiLower t)"

text \<open>\<open>strings.SplitN(s, " ", 2)\<close>: cut at the first blank, if there is one.\<close>

definition SplitN2 :: "string \<Rightarrow> string list" where
  "SplitN2 s =
     (if CHR '' '' \<in> set s
      then [takeWhile (\<lambda>c. c \<noteq> CHR '' '') s, drop 1 (dropWhile (\<lambda>c. c \<noteq> CHR '' '') s)]
      else [s])"

subsection \<open>Package model: \<open>IngestEvent.ToRaw\<close>\<close>

record IngestEvent =
  ev_Timestamp :: string
  ev_Service :: string
  ev_Env :: string
  ev_Host :: string
  ev_Level :: string
  ev_Message :: string
  ev_Status :: string
  ev_CorrelationID :: string
  ev_SpanID :: string
  ev_ParentSpanID :: string
  ev_Event :: string
  ev_Route :: string
  ev_Method :: string
  ev_StatusCode :: u16
  ev_DurationMs :: u32
  ev_Version :: string
  ev_Attrs :: "(string \<times> string) list option"

text \<open>
  The functions of Go's library that the collector calls and the model does not define:
  the case mappings of Unicode, the parser of RFC 3339 times (an error text or a time),
  the text of a formatted time, the JSON decoder for one event and for an array of raw
  messages, and the gzip reader (\<open>None\<close> when the header is bad, else an error while
  reading or the bytes).
\<close>

record golib =
  ToLower :: "string \<Rightarrow> string"
  ToUpper :: "string \<Rightarrow> string"
  parseRFC3339Nano :: "string \<Rightarrow> string + time"
  formatTime :: "time \<Rightarrow> string"
  unmarshalEvent :: "string \<Rightarrow> string + IngestEvent"
  unmarshalArray :: "string \<Rightarrow> string + string list"
  gunzip :: "string \<Rightarrow> (string + string) option"

definition withDefault :: "string \<Rightarrow> string \<Rightarrow> string" where
  "withDefault v fallback = (if TrimSpace v = [] then fallback else TrimSpace v)"

definition ToRaw :: "golib \<Rightarrow> time \<Rightarrow> IngestEvent \<Rightarrow> string \<Rightarrow> string + (RawLogRow \<times> time)" where
  "ToRaw lib now e raw =
     (let trace_id = TrimSpace (ev_CorrelationID e)
      in if trace_id = [] then Inl ''missing correlationId''
         else
           (case (if TrimSpace (ev_Timestamp e) \<noteq> []
                  then parseRFC3339Nano lib (ev_Timestamp e) else Inr now) of
              Inl err \<Rightarrow> Inl (''invalid timestamp: '' @ err)
            | Inr ts \<Rightarrow>
                (let eventType0 = ToLower lib (TrimSpace (ev_Event e));
                     eventType = (if eventType0 = [] then ''log'' else eventType0);
                     attrs0 = (case ev_Attrs e of None \<Rightarrow> [] | Some a \<Rightarrow> a);
                     attrs = (if TrimSpace (ev_Status e) \<noteq> []
                              then AList.update ''status'' (ToUpper lib (TrimSpace (ev_Status e))) attrs0
                              else attrs0)
                 in Inr (\<lparr> raw_TS = FormatCHTime ts,
                            raw_Service = withDefault (ev_Service e) ''unknown-service'',
                            raw_Env = withDefault (ev_Env e) ''unknown'',
                            raw_Host = withDefault (ev_Host e) ''unknown-host'',
                            raw_Version = withDefault (ev_Version e) ''unknown'',
                            raw_Level = ToUpper lib (withDefault (ev_Level e) ''INFO''),
                            raw_Message = ev_Message e,
                            raw_TraceID = trace_id,
                            raw_SpanID = TrimSpace (ev_SpanID e),
                            raw_ParentSpanID = TrimSpace (ev_ParentSpanID e),
                            raw_Event = eventType,
                            raw_Route = ev_Route e,
                            raw_Method = ToUpper lib (ev_Method e),
                            raw_StatusCode = ev_StatusCode e,
                            raw_DurationMs = ev_DurationMs e,
                            raw_Attrs = attrs,
                            raw_RawJSON = raw \<rparr>, ts))))"

subsection \<open>Package server: \<open>parseEvents\<close> and \<open>IngestLogs\<close>\<close>

record ingestError =
  Line :: nat
  Reason :: string

record ingestResponse =
  Accepted :: nat
  Rejected :: nat
  Errors :: "ingestError list"

text \<open>
  \<open>bufio.Scanner\<close> with the default split function: the lines between newlines, each
  without a carriage return at its end; with the buffer the handler sets, a line of
  2 MiB or more stops the scan with an error.
\<close>

definition maxTokenSize :: nat where
  "maxTokenSize = 2 * 1024 * 1024"

definition dropCR :: "string \<Rightarrow> string" where
  "dropCR l = (if l \<noteq> [] \<and> last l = CHR 0x0D then butlast l else l)"

definition scanLines :: "string \<Rightarrow> string list" where
  "scanLines s = (let ls = SplitChar (CHR 0x0A) s in if last ls = [] then butlast ls else ls)"

fun scanLoop ::
  "golib \<Rightarrow> string list \<Rightarrow> nat \<Rightarrow> IngestEvent list \<times> string list \<times> ingestError list
     \<Rightarrow> IngestEvent list \<times> string list \<times> ingestError list" where
  "scanLoop lib [] line acc = acc"
| "scanLoop lib (l # ls) line (events, raws, errs) =
     (if length l \<ge> maxTokenSize
      then (events, raws, errs @ [\<lparr> Line = line, Reason = ''bufio.Scanner: token too long'' \<rparr>])
      else
        (let entry = TrimSpace (dropCR l)
         in if entry = [] then scanLoop lib ls (line + 1) (events, raws, errs)
            else (case unmarshalEvent lib entry of
                    Inl err \<Rightarrow>
                      scanLoop lib ls (line + 1)
                        (events, raws, errs @ [\<lparr> Line = line + 1, Reason = err \<rparr>])
                  | Inr e \<Rightarrow> scanLoop lib ls (line + 1) (events @ [e], raws @ [entry], errs))))"

fun arrayLoop ::
  "golib \<Rightarrow> string list \<Rightarrow> nat \<Rightarrow> IngestEvent list \<times> string list \<times> ingestError list
     \<Rightarrow> IngestEvent list \<times> string list \<times> ingestError list" where
  "arrayLoop lib [] i acc = acc"
| "arrayLoop lib (m # ms) i (events, raws, errs) =
     (case unmarshalEvent lib m of
        Inl err \<Rightarrow> arrayLoop lib ms (i + 1) (events, raws, errs @ [\<lparr> Line = i + 1, Reason = err \<rparr>])
      | Inr e \<Rightarrow> arrayLoop lib ms (i + 1) (events @ [e], raws @ [m], errs))"

text \<open>
  The argument is what \<open>io.ReadAll\<close> gives on the request's reader, an error or the
  bytes, of which at most 20 MiB are read.
\<close>

definition parseEvents ::
  "golib \<Rightarrow> string + string \<Rightarrow> IngestEvent list \<times> string list \<times> ingestError list" where
  "parseEvents lib rd =
     (case rd of
        Inl err \<Rightarrow> ([], [], [\<lparr> Line = 0, Reason = err \<rparr>])
      | Inr bytes \<Rightarrow>
          (let trimmed = TrimSpace (take (20 * 1024 * 1024) bytes)
           in if trimmed = [] then ([], [], [\<lparr> Line = 0, Reason = ''empty body'' \<rparr>])
              else if HasPrefix trimmed ''['' then
                (case unmarshalArray lib trimmed of
                   Inl err \<Rightarrow> ([], [], [\<lparr> Line = 0, Reason = err \<rparr>])
                 | Inr rawMsgs \<Rightarrow> arrayLoop lib rawMsgs 0 ([], [], []))
              else if CHR 0x0A \<in> set trimmed then scanLoop lib (scanLines trimmed) 0 ([], [], [])
              else (case unmarshalEvent lib trimmed of
                      Inl err \<Rightarrow> ([], [], [\<lparr> Line = 1, Reason = err \<rparr>])
                    | Inr single \<Rightarrow> ([single], [trimmed], []))))"

definition validBearer :: "string \<Rightarrow> string \<Rightarrow> bool" where
  "validBearer header token =
     (let parts = SplitN2 header
      in if length parts \<noteq> 2 then False
         else if \<not> EqualFoldASCII (parts ! 0) ''Bearer'' then False
         else TrimSpace (parts ! 1) = token)"

record request =
  req_Method :: string
  req_Authorization :: string
  req_ContentEncoding :: string
  req_Body :: string

definition maybeGzipReader :: "golib \<Rightarrow> request \<Rightarrow> (string + string) option" where
  "maybeGzipReader lib r =
     (if EqualFoldASCII (req_ContentEncoding r) ''gzip'' then gunzip lib (req_Body r)
      else Some (Inr (req_Body r)))"

datatype httpResponse =
  Text nat string
| JSON nat ingestResponse

text \<open>The loop of \<open>IngestLogs\<close> over the parsed events; \<open>i\<close> is the index of the event.\<close>

fun toRawLoop ::
  "golib \<Rightarrow> time \<Rightarrow> (IngestEvent \<times> string) list \<Rightarrow> nat
     \<Rightarrow> ingestResponse \<times> RawLogRow list \<times> time list
     \<Rightarrow> ingestResponse \<times> RawLogRow list \<times> time list" where
  "toRawLoop lib now [] i acc = acc"
| "toRawLoop lib now ((e, raw) # rest) i (resp, rawRows, eventTimes) =
     (case ToRaw lib now e raw of
        Inl err \<Rightarrow>
          (let resp1 = resp\<lparr>Rejected := Rejected resp + 1\<rparr>;
               resp2 = (if length (Errors resp1) < 100
                        then resp1\<lparr>Errors := Errors resp1 @ [\<lparr> Line = i + 1, Reason = err \<rparr>]\<rparr>
                        else resp1)
           in toRawLoop lib now rest (i + 1) (resp2, rawRows, eventTimes))
      | Inr (row, ts) \<Rightarrow> toRawLoop lib now rest (i + 1) (resp, rawRows @ [row], eventTimes @ [ts]))"

text \<open>
  \<open>IngestLogs\<close> returns the response and the reconstructor's traces. \<open>token\<close> is the
  configured token, \<open>ch\<close> the store, \<open>now\<close> the clock of \<open>ToRaw\<close>. The rows and the times
  handed to \<open>Add\<close> have the same length, so \<open>Add\<close> does not panic here.
\<close>

definition IngestLogs ::
  "golib \<Rightarrow> string \<Rightarrow> store \<Rightarrow> time \<Rightarrow> request \<Rightarrow> traces \<Rightarrow> httpResponse \<times> traces" where
  "IngestLogs lib token ch now r tr =
     (if req_Method r \<noteq> ''POST'' then (Text 405 ''method not allowed'', tr)
      else if token \<noteq> [] \<and> \<not> validBearer (req_Authorization r) token
      then (Text 401 ''unauthorized'', tr)
      else (case maybeGzipReader lib r of
          None \<Rightarrow> (Text 400 ''invalid gzip'', tr)
        | Some rd \<Rightarrow>
            (let (events, raws, parseErrs) = parseEvents lib rd;
                 resp0 = \<lparr> Accepted = 0, Rejected = 0, Errors = parseErrs \<rparr>
             in if length events = 0
                then (JSON 400 (resp0\<lparr>Rejected := length parseErrs\<rparr>), tr)
                else
                  (let (resp1, rawRows, eventTimes) = toRawLoop lib now (zip events raws) 0 (resp0, [], [])
                   in if length rawRows > 0
                      then (case ch ''raw_logs'' (RawRows rawRows) of
                              Some err \<Rightarrow> (Text 502 err, tr)
                            | None \<Rightarrow>
                                (let tr1 = (case Add (formatTime lib) rawRows eventTimes tr of
                                              Inl t \<Rightarrow> t | Inr t \<Rightarrow> t);
                                     resp2 = resp1\<lparr>Accepted := length rawRows\<rparr>
                                 in (JSON 200
                                       (resp2\<lparr>Rejected := Rejected resp2 + (length events - length rawRows)\<rparr>),
                                     tr1)))
                      else (JSON 200
                              (resp1\<lparr>Rejected := Rejected resp1 + (length events - length rawRows)\<rparr>),
                            tr)))))"

subsection \<open>Package handlers: the read API\<close>

text \<open>The pattern \<open>^[a-zA-Z0-9._:/-]+$\<close>.\<close>

definition safeChar :: "char \<Rightarrow> bool" where
  "safeChar c =
     (let n = (of_char c :: nat)
      in (97 \<le> n \<and> n \<le> 122) \<or> (65 \<le> n \<and> n \<le> 90) \<or> (48 \<le> n \<and> n \<le> 57)
         \<or> c = CHR ''.'' \<or> c = CHR ''_'' \<or> c = CHR '':'' \<or> c = CHR ''/'' \<or> c = CHR ''-'')"

definition safeToken :: "string \<Rightarrow> bool" where
  "safeToken v = (v \<noteq> [] \<and> list_all safeChar v)"

definition sanitize :: "string \<Rightarrow> string" where
  "sanitize v0 =
     (let v = TrimSpace v0
      in if v = [] then [] else if \<not> safeToken v then [] else v)"

definition traceSQL :: "string \<Rightarrow> string" where
  "traceSQL i =
     [CHR 0x0A] @ ''SELECT trace_id, env, root_service, start_ts, end_ts, duration_ms, span_count, service_count, error_count, critical_path_ms, versions''
     @ [CHR 0x0A] @ ''FROM traces''
     @ [CHR 0x0A] @ ''WHERE trace_id = '' @ [CHR 0x27] @ i @ [CHR 0x27]
     @ [CHR 0x0A] @ ''ORDER BY updated_at DESC''
     @ [CHR 0x0A] @ ''LIMIT 1''"

definition spanSQL :: "string \<Rightarrow> string" where
  "spanSQL i =
     [CHR 0x0A] @ ''SELECT trace_id, span_id, parent_span_id, service, env, host, version, operation, start_ts, end_ts, duration_ms, self_time_ms, status_code, is_error, source''
     @ [CHR 0x0A] @ ''FROM spans''
     @ [CHR 0x0A] @ ''WHERE trace_id = '' @ [CHR 0x27] @ i @ [CHR 0x27]
     @ [CHR 0x0A] @ ''ORDER BY start_ts ASC''"

text \<open>
  The answers of \<open>TraceByID\<close>: an error text with its status, the trace with its spans,
  or the drill-down, which \<open>buildTraceDrilldown\<close> computes from the span rows given here.
\<close>

datatype 'row apiResponse =
  ApiError nat string
| ApiTrace "'row option" "'row list"
| ApiDrilldown "'row option" "'row list"

definition firstOrNil :: "'row list \<Rightarrow> 'row option" where
  "firstOrNil v = (case v of [] \<Rightarrow> None | x # _ \<Rightarrow> Some x)"

text \<open>
  \<open>TraceByID\<close> on the path of the request, which Go has decoded. \<open>query\<close> is the store:
  an error text or the rows. The result is the answer and the queries sent to the store.
\<close>

definition TraceByID ::
  "(string \<Rightarrow> string) \<Rightarrow> (string \<Rightarrow> string + 'row list) \<Rightarrow> string \<Rightarrow> 'row apiResponse \<times> string list" where
  "TraceByID toLower query path =
     (let tail = TrimChar (CHR ''/'') (TrimPrefix path ''/v1/traces/'')
      in if tail = [] then (ApiError 400 ''invalid trace id'', [])
         else
           (let parts = SplitChar (CHR ''/'') tail;
                i = sanitize (hd parts)
            in if i = [] then (ApiError 400 ''invalid trace id'', [])
               else
                 (let mode = (if length parts > 1 then toLower (TrimSpace (parts ! 1)) else [])
                  in case query (traceSQL i) of
                       Inl err \<Rightarrow> (ApiError 502 err, [traceSQL i])
                     | Inr traceRows \<Rightarrow>
                         (case query (spanSQL i) of
                            Inl err \<Rightarrow> (ApiError 502 err, [traceSQL i, spanSQL i])
                          | Inr spanRows \<Rightarrow>
                              if mode = ''waterfall'' \<or> mode = ''drilldown''
                              then (ApiDrilldown (firstOrNil traceRows) spanRows, [traceSQL i, spanSQL i])
                              else (ApiTrace (firstOrNil traceRows) spanRows, [traceSQL i, spanSQL i])))))"

text \<open>
  \<open>parseRange\<close>: \<open>rawTo\<close> and \<open>rawFrom\<close> are the query parameters (empty when absent),
  \<open>parse\<close> is \<open>time.Parse(time.RFC3339, _)\<close>, \<open>now\<close> the clock.
\<close>

definition parseRange :: "(string \<Rightarrow> time option) \<Rightarrow> time \<Rightarrow> string \<Rightarrow> string \<Rightarrow> time \<times> time" where
  "parseRange parse now rawFrom rawTo =
     (let to0 = now;
          from0 = to0 + (- 1 * Hour);
          to1 = (if rawTo \<noteq> [] then (case parse rawTo of Some parsed \<Rightarrow> parsed | None \<Rightarrow> to0) else to0);
          from1 = (if rawFrom \<noteq> []
                   then (case parse rawFrom of Some parsed \<Rightarrow> parsed | None \<Rightarrow> from0) else from0);
          from2 = (if \<not> Before from1 to1 then to1 + (- 1 * Hour) else from1)
      in (from2, to1))"








section \<open>Inputs of the examples\<close>

text \<open>
  An event of trace \<open>A\<close> as the normaliser hands it to \<open>Add\<close>, the state that \<open>Add\<close>
  leaves when the batch is folded into an empty reconstructor, the rows that a flush sent
  to the store with the store's answers, a store that accepts every insert and one that
  fails every insert. \<open>T0\<close> is 2024-01-01 00:00:00 UTC, \<open>ms n\<close> is \<open>n\<close> milliseconds later.
\<close>

definition event :: "string \<Rightarrow> string \<Rightarrow> string \<Rightarrow> string \<Rightarrow> u16 \<Rightarrow> u32 \<Rightarrow> RawLogRow" where
  "event sid parent kind svc status dur =
     \<lparr> raw_TS = 0, raw_Service = svc, raw_Env = ''prod'', raw_Host = ''h1'',
       raw_Version = ''v1'', raw_Level = ''INFO'', raw_Message = [], raw_TraceID = ''A'',
       raw_SpanID = sid, raw_ParentSpanID = parent, raw_Event = kind, raw_Route = ''/r'',
       raw_Method = ''GET'', raw_StatusCode = status, raw_DurationMs = dur, raw_Attrs = [],
       raw_RawJSON = [] \<rparr>"

definition T0 :: time where
  "T0 = 63839664000000000000"

definition ms :: "int \<Rightarrow> time" where
  "ms n = T0 + n * Millisecond"

definition folded :: "RawLogRow list \<Rightarrow> time list \<Rightarrow> traces" where
  "folded rows eventTimes = (case Add (\<lambda>t. []) rows eventTimes [] of Inl tr \<Rightarrow> tr | Inr tr \<Rightarrow> tr)"

definition acceptingStore :: store where
  "acceptingStore table rows = None"

definition failingStore :: store where
  "failingStore table rows = Some ''clickhouse insert failed''"

definition constClock :: "time \<Rightarrow> string \<Rightarrow> string \<Rightarrow> time" where
  "constClock t trace_id k = t"

text \<open>A flush one hour after \<open>T0\<close> with the default window of two minutes.\<close>

definition flushLater :: "store \<Rightarrow> traces \<Rightarrow> traces \<times> (string \<times> payload \<times> string option) list" where
  "flushLater ch tr = FlushNow ch (120000 * Millisecond) (T0 + Hour) (constClock (T0 + Hour)) tr"

definition spansWritten :: "(string \<times> payload \<times> string option) list \<Rightarrow> SpanRow list" where
  "spansWritten calls = concat (map (\<lambda>c. case fst (snd c) of SpanRows rs \<Rightarrow> rs | _ \<Rightarrow> []) calls)"

definition tracesWritten :: "(string \<times> payload \<times> string option) list \<Rightarrow> TraceRow list" where
  "tracesWritten calls = concat (map (\<lambda>c. case fst (snd c) of TraceRows rs \<Rightarrow> rs | _ \<Rightarrow> []) calls)"

definition answers :: "(string \<times> payload \<times> string option) list \<Rightarrow> (string \<times> string option) list" where
  "answers calls = map (\<lambda>c. (fst c, snd (snd c))) calls"

text \<open>
  A reconstructor with trace \<open>A\<close>, one hour old at the flush, and trace \<open>B\<close>, one
  second old.
\<close>

definition twoTraces :: traces where
  "twoTraces =
     folded [event ''s1'' [] ''end'' ''svc-a'' 0 100,
             (event ''s9'' [] ''end'' ''svc-a'' 0 100)\<lparr>raw_TraceID := ''B''\<rparr>]
       [ms 100, T0 + Hour - 1000 * Millisecond]"

text \<open>
  Trace states as \<open>Add\<close> may leave them: two spans that name each other as parent, with
  durations of 100 ms and 60 ms; and one span without a duration whose start is stamped
  after its end.
\<close>

definition cycleSpan :: "string \<Rightarrow> string \<Rightarrow> u32 \<Rightarrow> spanState" where
  "cycleSpan sid parent dur =
     \<lparr> traceID = ''A'', spanID = sid, parentSpanID = parent, service = ''svc-a'', env = ''prod'',
       host = ''h1'', version = ''v1'', operation = ''/r'', startTs = 0, endTs = ms 100,
       durationMs = dur, statusCode = 0, isError = False, source = ''explicit'' \<rparr>"

definition cycleTrace :: traceState where
  "cycleTrace =
     \<lparr> t_id = ''A'', t_env = ''prod'', updatedAt = ms 100,
       spans = [(''s1'', cycleSpan ''s1'' ''s2'' 100), (''s2'', cycleSpan ''s2'' ''s1'' 60)] \<rparr>"

definition skewedTrace :: traceState where
  "skewedTrace =
     \<lparr> t_id = ''A'', t_env = ''prod'', updatedAt = ms 100,
       spans = [(''s1'', (cycleSpan ''s1'' [] 0)\<lparr>startTs := ms 100, endTs := ms 50\<rparr>)] \<rparr>"

text \<open>
  A body of \<open>n\<close> lines, each the text \<open>x\<close>; a JSON decoder that rejects every text, as
  Go's does for \<open>x\<close>; a request whose body is 101 such lines; the \<open>errors\<close> of a
  response; an ingest event that has only a correlation id.
\<close>

definition xlines :: "nat \<Rightarrow> string" where
  "xlines n = concat (replicate n (''x'' @ [CHR 0x0A]))"

definition badJSON :: golib where
  "badJSON =
     \<lparr> ToLower = id, ToUpper = id, parseRFC3339Nano = (\<lambda>s. Inl ''cannot parse''),
       formatTime = (\<lambda>t. []), unmarshalEvent = (\<lambda>s. Inl ''invalid character''),
       unmarshalArray = (\<lambda>s. Inl ''invalid character''), gunzip = (\<lambda>s. None) \<rparr>"

definition badLines :: request where
  "badLines =
     \<lparr> req_Method = ''POST'', req_Authorization = [], req_ContentEncoding = [],
       req_Body = xlines 101 \<rparr>"

definition responseErrors :: "httpResponse \<Rightarrow> ingestError list" where
  "responseErrors r = (case r of Text code msg \<Rightarrow> [] | JSON code resp \<Rightarrow> Errors resp)"

definition eventOf :: "string \<Rightarrow> IngestEvent" where
  "eventOf cid =
     \<lparr> ev_Timestamp = [], ev_Service = [], ev_Env = [], ev_Host = [], ev_Level = [],
       ev_Message = [], ev_Status = [], ev_CorrelationID = cid, ev_SpanID = [],
       ev_ParentSpanID = [], ev_Event = [], ev_Route = [], ev_Method = [], ev_StatusCode = 0,
       ev_DurationMs = 0, ev_Version = [], ev_Attrs = None \<rparr>"

text \<open>
  For the read API: a parser of RFC 3339 that knows two times of day of 2024-01-01, and
  a store without rows.
\<close>

definition parseExample :: "string \<Rightarrow> time option" where
  "parseExample v =
     (if v = ''2024-01-01T10:00:00Z'' then Some (T0 + 10 * Hour)
      else if v = ''2024-01-01T09:00:00Z'' then Some (T0 + 9 * Hour) else None)"

definition emptyStore :: "string \<Rightarrow> string + unit list" where
  "emptyStore q = Inr []"

section \<open>The order of arrival\<close>

text \<open>
  What \<open>Add\<close> computes without regard to the order of arrival: per trace the time of
  the latest event, per span the start, the end and the error flag. \<open>viewTraces\<close> reads
  it off a state; a trace or a span that the state does not hold reads as \<open>None\<close>.
  \<open>stepView\<close> is the effect of one event on that view: the start is lowered to the
  event's candidate, the end is raised to it, the flag is set by a status of 400 or more.
  The zero time stands for "not set" in the source, so a candidate that is the zero
  time itself is lost again; \<open>eventOK\<close> keeps the candidates of an event after the zero
  time (the event is later than year 1 by more than its duration).
\<close>

type_synonym spanView = "time \<times> time \<times> bool"

definition viewSpan :: "spanState \<Rightarrow> spanView" where
  "viewSpan s = (startTs s, endTs s, isError s)"

definition viewTrace :: "traceState \<Rightarrow> time \<times> (string \<Rightarrow> spanView option)" where
  "viewTrace t = (updatedAt t, \<lambda>sid. map_option viewSpan (map_of (spans t) sid))"




















lemma viewTrace_updatedAt:
  "viewTrace (t\<lparr>updatedAt := u\<rparr>) = (u, snd (viewTrace t))"
  by (simp add: viewTrace_def)

















section \<open>Finalisation of spans\<close>

text \<open>
  C2. Every span that the flush emits has \<open>start_ts \<le> end_ts\<close> and
  \<open>self_time_ms \<le> duration_ms\<close>, also for start and end events out of order and with an
  explicit \<open>durationMs\<close>. The source moves \<open>end_ts\<close> up to \<open>start_ts\<close> only on the path that
  derives a missing duration. For a span whose start event is stamped 100 ms after \<open>T0\<close>
  and whose end event, with \<open>durationMs = 10\<close>, is stamped 50 ms after \<open>T0\<close>, the emitted
  row starts 50 ms after it ends.
\<close>

theorem flush_emits_start_after_end:
  "map StartTS (spansWritten (snd (flushLater acceptingStore
      (folded [event ''s1'' [] ''start'' ''svc-a'' 0 0, event ''s1'' [] ''end'' ''svc-a'' 0 10]
         [ms 100, ms 50])))) = [ms 100]
   \<and> map EndTS (spansWritten (snd (flushLater acceptingStore
      (folded [event ''s1'' [] ''start'' ''svc-a'' 0 0, event ''s1'' [] ''end'' ''svc-a'' 0 10]
         [ms 100, ms 50])))) = [ms 50]
   \<and> ms 50 < ms 100"
  by code_simp

text \<open>
  C5. The self time is \<open>duration_ms\<close> minus the sum of the children's durations, and is
  \<open>duration_ms\<close> itself only when the sum is strictly larger; when the sum equals the
  duration the self time is 0. The source compares with \<open><\<close>, so at equality it takes
  the branch meant for the larger sum: a parent of 100 ms with one child of 100 ms is
  emitted with a self time of 100 ms.
\<close>

theorem self_time_at_equal_child_total:
  "map SpanID (spansWritten (snd (flushLater acceptingStore
      (folded [event ''s1'' [] ''end'' ''svc-a'' 0 100, event ''s2'' ''s1'' ''end'' ''svc-b'' 0 100]
         [ms 100, ms 100])))) = [''s1'', ''s2'']
   \<and> map DurationMs (spansWritten (snd (flushLater acceptingStore
      (folded [event ''s1'' [] ''end'' ''svc-a'' 0 100, event ''s2'' ''s1'' ''end'' ''svc-b'' 0 100]
         [ms 100, ms 100])))) = [100, 100]
   \<and> map SelfTimeMs (spansWritten (snd (flushLater acceptingStore
      (folded [event ''s1'' [] ''end'' ''svc-a'' 0 100, event ''s2'' ''s1'' ''end'' ''svc-b'' 0 100]
         [ms 100, ms 100])))) = [100, 100]"
  by code_simp

text \<open>
  The half of the invariant that holds: the self time of an emitted span is never above
  its duration.
\<close>

lemma selfTimeOf_le: "selfTimeOf duration childTotal \<le> duration"
  by (simp add: selfTimeOf_def word_sub_le)

lemma finalizeOne_self_time:
  assumes "\<forall>r\<in>set (snd st). SelfTimeMs r \<le> DurationMs r"
  shows "\<forall>r\<in>set (snd (finalizeOne now children k st)). SelfTimeMs r \<le> DurationMs r"
  using assms
  by (cases "map_of (fst st) k") (auto simp: finalizeOne_def Let_def split_def selfTimeOf_le)

lemma finalize_fold_self_time:
  assumes "\<forall>r\<in>set (snd st). SelfTimeMs r \<le> DurationMs r"
  shows "\<forall>r\<in>set (snd (fold (\<lambda>k. finalizeOne (clock k) children k) ks st)).
           SelfTimeMs r \<le> DurationMs r"
  using assms
proof (induction ks arbitrary: st)
  case Nil
  then show ?case by simp
next
  case (Cons k ks)
  show ?case
    using Cons.IH[OF finalizeOne_self_time[OF Cons.prems]] by simp
qed

lemma self_time_le_duration:
  "\<forall>r\<in>set (finalizeSpans clock t). SelfTimeMs r \<le> DurationMs r"
  unfolding finalizeSpans_def by (rule finalize_fold_self_time) simp

text \<open>
  The other half holds for the spans without an explicit duration: when no span state of
  the trace carries a \<open>durationMs\<close>, every emitted row has \<open>start_ts \<le> end_ts\<close>.
\<close>

lemma FormatCHTime_mono: "a \<le> b \<Longrightarrow> FormatCHTime a \<le> FormatCHTime b"
proof -
  assume "a \<le> b"
  then have "a div 1000000 \<le> b div 1000000"
    by (rule zdiv_mono1) simp
  then have "1000000 * (a div 1000000) \<le> 1000000 * (b div 1000000)"
    by simp
  then show ?thesis
    by (simp add: FormatCHTime_def Millisecond_def minus_mod_eq_mult_div)
qed

lemma bounds_ordered:
  assumes "durationMs s0 = 0"
  shows "startTs (fst (spanDuration (fst (inferBounds now s0))))
           \<le> endTs (fst (spanDuration (fst (inferBounds now s0))))"
    and "durationMs (fst (spanDuration (fst (inferBounds now s0)))) = 0"
  using assms
  by (auto simp: spanDuration_def inferBounds_def Let_def IsZero_def Before_def)

lemma finalizeOne_ordered:
  assumes "\<forall>k s. map_of (fst st) k = Some s \<longrightarrow> durationMs s = 0"
    and "\<forall>r\<in>set (snd st). StartTS r \<le> EndTS r"
  shows "(\<forall>k' s. map_of (fst (finalizeOne now children k st)) k' = Some s \<longrightarrow> durationMs s = 0)
       \<and> (\<forall>r\<in>set (snd (finalizeOne now children k st)). StartTS r \<le> EndTS r)"
proof (cases "map_of (fst st) k")
  case None
  then show ?thesis using assms by (simp add: finalizeOne_def)
next
  case (Some s0)
  then have d: "durationMs s0 = 0" using assms(1) by blast
  show ?thesis
    using assms Some bounds_ordered[OF d, of now]
    by (auto simp: finalizeOne_def Let_def split_def update_conv' FormatCHTime_mono)
qed

lemma finalize_fold_ordered:
  assumes "\<forall>k s. map_of (fst st) k = Some s \<longrightarrow> durationMs s = 0"
    and "\<forall>r\<in>set (snd st). StartTS r \<le> EndTS r"
  shows "\<forall>r\<in>set (snd (fold (\<lambda>k. finalizeOne (clock k) children k) ks st)). StartTS r \<le> EndTS r"
  using assms
proof (induction ks arbitrary: st)
  case Nil
  then show ?case by simp
next
  case (Cons k ks)
  from finalizeOne_ordered[OF Cons.prems, of "clock k" children k]
  show ?case
    using Cons.IH[of "finalizeOne (clock k) children k st"] by simp
qed

lemma start_le_end_without_duration:
  assumes "\<forall>k s. map_of (spans t) k = Some s \<longrightarrow> durationMs s = 0"
  shows "\<forall>r\<in>set (finalizeSpans clock t). StartTS r \<le> EndTS r"
  unfolding finalizeSpans_def using assms by (intro finalize_fold_ordered) simp_all

text \<open>
  Instances of the two bounds: the first row of the trace of two spans, and the span
  without a duration whose start was stamped after its end, which is emitted with both
  bounds at the start.
\<close>

lemma self_time_le_duration_witness:
  "hd (finalizeSpans (constClock (T0 + Hour) ''A'') cycleTrace)
     \<in> set (finalizeSpans (constClock (T0 + Hour) ''A'') cycleTrace)
   \<and> SelfTimeMs (hd (finalizeSpans (constClock (T0 + Hour) ''A'') cycleTrace)) = 40
   \<and> DurationMs (hd (finalizeSpans (constClock (T0 + Hour) ''A'') cycleTrace)) = 100
   \<and> SelfTimeMs (hd (finalizeSpans (constClock (T0 + Hour) ''A'') cycleTrace))
       \<le> DurationMs (hd (finalizeSpans (constClock (T0 + Hour) ''A'') cycleTrace))"
proof -
  let ?rows = "finalizeSpans (constClock (T0 + Hour) ''A'') cycleTrace"
  have n: "?rows \<noteq> []"
    by code_simp
  then have m: "hd ?rows \<in> set ?rows"
    by (rule hd_in_set)
  have v: "SelfTimeMs (hd ?rows) = 40" "DurationMs (hd ?rows) = 100"
    by code_simp+
  show ?thesis
    using m v self_time_le_duration[of "constClock (T0 + Hour) ''A''" cycleTrace]
    by blast
qed

lemma start_le_end_without_duration_witness:
  "map (\<lambda>e. durationMs (snd e)) (spans skewedTrace) = [0]
   \<and> hd (finalizeSpans (constClock (T0 + Hour) ''A'') skewedTrace)
       \<in> set (finalizeSpans (constClock (T0 + Hour) ''A'') skewedTrace)
   \<and> StartTS (hd (finalizeSpans (constClock (T0 + Hour) ''A'') skewedTrace)) = ms 100
   \<and> StartTS (hd (finalizeSpans (constClock (T0 + Hour) ''A'') skewedTrace))
       \<le> EndTS (hd (finalizeSpans (constClock (T0 + Hour) ''A'') skewedTrace))"
proof -
  let ?rows = "finalizeSpans (constClock (T0 + Hour) ''A'') skewedTrace"
  have h: "\<forall>k s. map_of (spans skewedTrace) k = Some s \<longrightarrow> durationMs s = 0"
    by (simp add: skewedTrace_def cycleSpan_def)
  have d: "map (\<lambda>e. durationMs (snd e)) (spans skewedTrace) = [0]"
    by (simp add: skewedTrace_def cycleSpan_def)
  have "?rows \<noteq> []"
    by code_simp
  then have m: "hd ?rows \<in> set ?rows"
    by (rule hd_in_set)
  have v: "StartTS (hd ?rows) = ms 100"
    by code_simp
  show ?thesis
    using d m v start_le_end_without_duration[OF h, of "constClock (T0 + Hour) ''A''"]
    by blast
qed

section \<open>The critical path of two spans that name each other as parent\<close>

lemma dfs_cycle:
  assumes ne: "a \<noteq> b"
    and ca: "childIDs children a = [b]" and cb: "childIDs children b = [a]"
  shows "dfs byID children {} a Map.empty =
           (spanDur byID a + spanDur byID b,
            [b \<mapsto> spanDur byID b, a \<mapsto> spanDur byID a + spanDur byID b])"
proof -
  have d3: "dfs byID children (insert b (insert a {})) a Map.empty = (0, Map.empty)"
    by (subst dfs.simps) simp
  have d2: "dfs byID children (insert a {}) b Map.empty = (spanDur byID b, [b \<mapsto> spanDur byID b])"
    using ne by (subst dfs.simps) (simp add: cb d3 Let_def)
  show ?thesis
    by (subst dfs.simps) (simp add: ca d2 Let_def word_gt_0)
qed

lemma rollupStep_maps:
  "ru_byID (rollupStep s r) = AList.update (SpanID s) s (ru_byID r)"
  "ru_children (rollupStep s r) =
     (if ParentSpanID s \<noteq> []
      then AList.update (ParentSpanID s) (childIDs (ru_children r) (ParentSpanID s) @ [SpanID s])
             (ru_children r)
      else ru_children r)"
  by (simp_all add: rollupStep_def Let_def)

lemma dfs_memo: "memo i = Some v \<Longrightarrow> dfs byID children visiting i memo = (v, memo)"
  by (subst dfs.simps) simp

lemma criticalPath_cycle:
  fixes a b :: SpanRow
  assumes ne: "SpanID a \<noteq> SpanID b"
    and pa: "ParentSpanID a = SpanID b" and pb: "ParentSpanID b = SpanID a"
    and na: "SpanID a \<noteq> []" and nb: "SpanID b \<noteq> []"
    and sum: "unat (DurationMs a) + unat (DurationMs b) < 2 ^ 32"
  shows "tr_CriticalPathMs (buildTraceRow e tid [a, b]) = DurationMs a + DurationMs b"
proof -
  let ?byID = "[(SpanID a, a), (SpanID b, b)]"
  let ?children = "[(SpanID b, [SpanID a]), (SpanID a, [SpanID b])]"
  have ca: "childIDs ?children (SpanID a) = [SpanID b]"
    and cb: "childIDs ?children (SpanID b) = [SpanID a]"
    using ne by (simp_all add: childIDs_def)
  have da: "spanDur ?byID (SpanID a) = DurationMs a" and db: "spanDur ?byID (SpanID b) = DurationMs b"
    using ne by (simp_all add: spanDur_def)
  have le: "\<not> DurationMs a + DurationMs b < DurationMs b"
    using sum by (simp add: word_less_nat_alt unat_word_ariths)
  have s1: "seedStep ?byID ?children (SpanID a) (0, Map.empty) =
              (DurationMs a + DurationMs b,
               [SpanID b \<mapsto> DurationMs b, SpanID a \<mapsto> DurationMs a + DurationMs b])"
    by (simp add: seedStep_def dfs_cycle[OF ne ca cb] da db Let_def word_gt_0)
  have s2: "seedStep ?byID ?children (SpanID b)
              (DurationMs a + DurationMs b,
               [SpanID b \<mapsto> DurationMs b, SpanID a \<mapsto> DurationMs a + DurationMs b]) =
              (DurationMs a + DurationMs b,
               [SpanID b \<mapsto> DurationMs b, SpanID a \<mapsto> DurationMs a + DurationMs b])"
    using ne le by (simp add: seedStep_def dfs_memo Let_def)
  have cp: "criticalPath ?byID ?children = DurationMs a + DurationMs b"
    using ne pa pb na nb
    by (simp add: criticalPath_def s1 s2 Let_def)
  have "ru_byID (fold rollupStep [a, b]
          \<lparr> ru_start = StartTS a, ru_end = EndTS a, ru_services = [], ru_versions = [],
            ru_errorCount = 0, ru_rootService = Service a, ru_byID = [], ru_children = [] \<rparr>) = ?byID
        \<and> ru_children (fold rollupStep [a, b]
          \<lparr> ru_start = StartTS a, ru_end = EndTS a, ru_services = [], ru_versions = [],
            ru_errorCount = 0, ru_rootService = Service a, ru_byID = [], ru_children = [] \<rparr>) = ?children"
    using ne pa pb na nb
    by (simp add: rollupStep_maps childIDs_def)
  then show ?thesis
    using cp by (simp add: Let_def)
qed


lemma inferBounds_ids:
  "spanID (fst (inferBounds now s)) = spanID s"
  "parentSpanID (fst (inferBounds now s)) = parentSpanID s"
  by (simp_all add: inferBounds_def Let_def split_def)

lemma spanDuration_ids:
  "spanID (fst (spanDuration s)) = spanID s"
  "parentSpanID (fst (spanDuration s)) = parentSpanID s"
  by (simp_all add: spanDuration_def Let_def)

lemma finalizeOne_row:
  assumes "map_of (fst st) k = Some s0"
  shows "\<exists>s' r. finalizeOne now children k st = (AList.update k s' (fst st), snd st @ [r])
           \<and> SpanID r = spanID s0 \<and> ParentSpanID r = parentSpanID s0"
  using assms
  by (auto simp: finalizeOne_def Let_def split_def inferBounds_ids spanDuration_ids)

text \<open>
  C3, as the specification states it: for two spans with \<open>s1.parent = s2\<close> and
  \<open>s2.parent = s1\<close> the flush ends and \<open>critical_path_ms\<close> is the larger of the two
  durations. The flush ends (every function of the model is total), but the value is
  another: with durations of 100 ms and 60 ms the trace row carries 160.
\<close>

theorem cycle_critical_path_is_not_max:
  "map DurationMs (spansWritten (snd (flushLater acceptingStore
      (folded [event ''s1'' ''s2'' ''end'' ''svc-a'' 0 100, event ''s2'' ''s1'' ''end'' ''svc-b'' 0 60]
         [ms 100, ms 80])))) = [100, 60]
   \<and> map tr_CriticalPathMs (tracesWritten (snd (flushLater acceptingStore
      (folded [event ''s1'' ''s2'' ''end'' ''svc-a'' 0 100, event ''s2'' ''s1'' ''end'' ''svc-b'' 0 60]
         [ms 100, ms 80])))) = [160]
   \<and> max (100 :: u32) 60 = 100"
  by code_simp

text \<open>
  C3, amended: for a trace of two spans that name each other as parent, \<open>finalizeSpans\<close>
  emits the two rows and \<open>buildTraceRow\<close> gives \<open>critical_path_ms\<close> = the sum of the two
  emitted durations, as long as the sum fits in \<open>uint32\<close>: the search starts at one span,
  enters the other as its child, and stops only when it comes back to the first.
  The statement holds for the spans in either order.
\<close>

theorem cycle_critical_path_is_sum:
  assumes t: "spans t = [(k1, s1), (k2, s2)]"
    and ne: "k1 \<noteq> k2" and n1: "k1 \<noteq> []" and n2: "k2 \<noteq> []"
    and i1: "spanID s1 = k1" and i2: "spanID s2 = k2"
    and p1: "parentSpanID s1 = k2" and p2: "parentSpanID s2 = k1"
    and rows: "rows = finalizeSpans clock t"
    and sum: "unat (DurationMs (rows ! 0)) + unat (DurationMs (rows ! 1)) < 2 ^ 32"
  shows "length rows = 2
       \<and> tr_CriticalPathMs (buildTraceRow e tid rows) = DurationMs (rows ! 0) + DurationMs (rows ! 1)"
proof -
  let ?ch = "childrenOf (spans t)"
  obtain s1' r1 where f1:
    "finalizeOne (clock k1) ?ch k1 (spans t, []) = (AList.update k1 s1' (spans t), [r1])"
    "SpanID r1 = k1" "ParentSpanID r1 = k2"
    using finalizeOne_row[of "(spans t, [])" k1 s1 "clock k1" ?ch] t i1 p1 by auto
  have "map_of (AList.update k1 s1' (spans t)) k2 = Some s2"
    using t ne by simp
  then obtain s2' r2 where f2:
    "finalizeOne (clock k2) ?ch k2 (AList.update k1 s1' (spans t), [r1])
       = (AList.update k2 s2' (AList.update k1 s1' (spans t)), [r1, r2])"
    "SpanID r2 = k2" "ParentSpanID r2 = k1"
    using finalizeOne_row[of "(AList.update k1 s1' (spans t), [r1])" k2 s2 "clock k2" ?ch] i2 p2
    by auto
  have r: "rows = [r1, r2]"
    unfolding rows finalizeSpans_def using t f1(1) f2(1) by simp
  have "tr_CriticalPathMs (buildTraceRow e tid [r1, r2]) = DurationMs r1 + DurationMs r2"
    using sum ne n1 n2 f1(2,3) f2(2,3) 
    by (intro criticalPath_cycle) (simp_all add: r)
  then show ?thesis by (simp add: r)
qed

text \<open>
  An instance: the trace of two spans of 100 ms and 60 ms that name each other as parent
  has a critical path of 160 ms.
\<close>

theorem cycle_critical_path_is_sum_witness:
  "spans cycleTrace = [(''s1'', cycleSpan ''s1'' ''s2'' 100), (''s2'', cycleSpan ''s2'' ''s1'' 60)]
   \<and> ''s1'' \<noteq> ''s2'' \<and> ''s1'' \<noteq> [] \<and> ''s2'' \<noteq> []
   \<and> spanID (cycleSpan ''s1'' ''s2'' 100) = ''s1'' \<and> spanID (cycleSpan ''s2'' ''s1'' 60) = ''s2''
   \<and> parentSpanID (cycleSpan ''s1'' ''s2'' 100) = ''s2''
   \<and> parentSpanID (cycleSpan ''s2'' ''s1'' 60) = ''s1''
   \<and> map DurationMs (finalizeSpans (constClock (T0 + Hour) ''A'') cycleTrace) = [100, 60]
   \<and> tr_CriticalPathMs (buildTraceRow ''prod'' ''A'' (finalizeSpans (constClock (T0 + Hour) ''A'') cycleTrace))
       = 160"
proof -
  let ?rows = "finalizeSpans (constClock (T0 + Hour) ''A'') cycleTrace"
  have d: "map DurationMs ?rows = [100, 60]"
    by code_simp
  have d0: "DurationMs (?rows ! 0) = 100" and d1: "DurationMs (?rows ! Suc 0) = 60"
    by code_simp+
  have h: "spans cycleTrace = [(''s1'', cycleSpan ''s1'' ''s2'' 100), (''s2'', cycleSpan ''s2'' ''s1'' 60)]"
    "''s1'' \<noteq> ''s2''" "''s1'' \<noteq> []" "''s2'' \<noteq> []"
    "spanID (cycleSpan ''s1'' ''s2'' 100) = ''s1''" "spanID (cycleSpan ''s2'' ''s1'' 60) = ''s2''"
    "parentSpanID (cycleSpan ''s1'' ''s2'' 100) = ''s2''"
    "parentSpanID (cycleSpan ''s2'' ''s1'' 60) = ''s1''"
    by (simp_all add: cycleTrace_def cycleSpan_def)
  have s: "unat (DurationMs (?rows ! 0)) + unat (DurationMs (?rows ! 1)) < 2 ^ 32"
    by (simp add: d0 d1)
  show ?thesis
    using h d cycle_critical_path_is_sum[OF h refl s, of "''prod''" "''A''"]
    by (simp add: d0 d1)
qed

section \<open>A failed insert during the flush\<close>

definition young :: "duration \<Rightarrow> time \<Rightarrow> string \<times> traceState \<Rightarrow> bool" where
  "young window now kt = (Sub now (updatedAt (snd kt)) < window)"

lemma fl_traces_fold:
  "fl_traces (fold (flushStep window now clock) xs st) =
     fold (\<lambda>kt m. if young window now kt then m else AList.delete (fst kt) m) xs (fl_traces st)"
  by (induction xs arbitrary: st) (simp_all add: flushStep_def young_def Let_def)

lemma fold_delete_filter:
  "fold (\<lambda>kt m. if P kt then m else AList.delete (fst kt) m) xs m =
     filter (\<lambda>e. fst e \<notin> fst ` {kt \<in> set xs. \<not> P kt}) m"
proof (induction xs arbitrary: m)
  case Nil
  then show ?case by simp
next
  case (Cons x xs)
  show ?case
  proof (cases "P x")
    case True
    then have "{kt \<in> set (x # xs). \<not> P kt} = {kt \<in> set xs. \<not> P kt}" by auto
    with True Cons show ?thesis by simp
  next
    case False
    then have eq: "{kt \<in> set (x # xs). \<not> P kt} = insert x {kt \<in> set xs. \<not> P kt}" by auto
    have "fold (\<lambda>kt m. if P kt then m else AList.delete (fst kt) m) (x # xs) m =
          filter (\<lambda>e. fst e \<notin> fst ` {kt \<in> set xs. \<not> P kt}) (AList.delete (fst x) m)"
      using False Cons by simp
    also have "\<dots> = filter (\<lambda>e. fst e \<notin> fst ` {kt \<in> set (x # xs). \<not> P kt}) m"
      unfolding eq by (induction m) (auto simp: AList.delete_eq)
    finally show ?thesis .
  qed
qed

lemma filter_aged_keys:
  assumes "distinct (map fst tr)"
  shows "filter (\<lambda>e. fst e \<notin> fst ` {kt \<in> set tr. \<not> P kt}) tr = filter P tr"
proof (rule filter_cong[OF refl])
  fix e assume e: "e \<in> set tr"
  show "(fst e \<notin> fst ` {kt \<in> set tr. \<not> P kt}) = P e"
  proof
    assume "fst e \<notin> fst ` {kt \<in> set tr. \<not> P kt}"
    with e show "P e" by force
  next
    assume p: "P e"
    show "fst e \<notin> fst ` {kt \<in> set tr. \<not> P kt}"
    proof
      assume "fst e \<in> fst ` {kt \<in> set tr. \<not> P kt}"
      then obtain kt where kt: "kt \<in> set tr" "\<not> P kt" "fst kt = fst e" by auto
      from assms kt(1) e kt(3) have "kt = e"
        by (metis eq_key_imp_eq_value prod.collapse)
      with p kt(2) show False by simp
    qed
  qed
qed

text \<open>
  C4, as the specification states it: when an insert fails during the flush, the traces
  being flushed stay in memory for the next tick. It fails: trace \<open>A\<close>, one hour old, is
  flushed against a store that fails every insert; both inserts are answered with an
  error and the reconstructor is left empty.
\<close>

theorem flush_discards_on_failed_insert:
  "map fst (folded [event ''s1'' [] ''start'' ''svc-a'' 0 0, event ''s1'' [] ''end'' ''svc-a'' 0 100]
      [ms 0, ms 100]) = [''A'']
   \<and> answers (snd (flushLater failingStore
        (folded [event ''s1'' [] ''start'' ''svc-a'' 0 0, event ''s1'' [] ''end'' ''svc-a'' 0 100]
           [ms 0, ms 100])))
       = [(''spans'', Some ''clickhouse insert failed''), (''traces'', Some ''clickhouse insert failed'')]
   \<and> fst (flushLater failingStore
        (folded [event ''s1'' [] ''start'' ''svc-a'' 0 0, event ''s1'' [] ''end'' ''svc-a'' 0 100]
           [ms 0, ms 100])) = []"
  by code_simp

text \<open>
  C4, amended: \<open>FlushNow\<close> deletes every trace that is at least one window old from memory
  before it writes, and drops the answer of every insert. Whatever the store answers, the
  traces left in memory are exactly the ones younger than the window; the rows of a
  failed insert are not kept for another try.
\<close>

theorem FlushNow_drops_aged:
  assumes "distinct (map fst tr)"
  shows "fst (FlushNow ch window now clock tr) =
           filter (\<lambda>kt. Sub now (updatedAt (snd kt)) < window) tr"
proof -
  have "fst (FlushNow ch window now clock tr) =
          fold (\<lambda>kt m. if young window now kt then m else AList.delete (fst kt) m) tr tr"
    by (simp add: FlushNow_def Let_def fl_traces_fold)
  also have "\<dots> = filter (young window now) tr"
    by (simp add: fold_delete_filter filter_aged_keys[OF assms])
  also have "young window now = (\<lambda>kt. Sub now (updatedAt (snd kt)) < window)"
    by (rule ext) (simp add: young_def)
  finally show ?thesis .
qed

text \<open>
  An instance: after a flush against the failing store, of the two traces only \<open>B\<close>, one
  second old, is in memory.
\<close>

theorem FlushNow_drops_aged_witness:
  "distinct (map fst twoTraces)
   \<and> fst (FlushNow failingStore (120000 * Millisecond) (T0 + Hour) (constClock (T0 + Hour)) twoTraces)
       = filter (\<lambda>kt. Sub (T0 + Hour) (updatedAt (snd kt)) < 120000 * Millisecond) twoTraces
   \<and> map fst (filter (\<lambda>kt. Sub (T0 + Hour) (updatedAt (snd kt)) < 120000 * Millisecond) twoTraces) = [''B'']"
proof -
  have d: "distinct (map fst twoTraces)"
    by code_simp
  have v: "map fst (filter (\<lambda>kt. Sub (T0 + Hour) (updatedAt (snd kt)) < 120000 * Millisecond) twoTraces) = [''B'']"
    by code_simp
  show ?thesis
    using d v FlushNow_drops_aged[OF d, of failingStore "120000 * Millisecond" "T0 + Hour" "constClock (T0 + Hour)"]
    by simp
qed

section \<open>The ingest response\<close>

lemma xlines_Suc: "xlines (Suc n) = ''x'' @ [CHR 0x0A] @ xlines n"
  by (simp add: xlines_def)

lemma xlines_snoc: "xlines (Suc n) = xlines n @ ''x'' @ [CHR 0x0A]"
  by (induction n) (simp_all add: xlines_def)

lemma length_xlines: "length (xlines n) = 2 * n"
  by (induction n) (simp_all add: xlines_def)

lemma spaceLen_x: "spaceLen unicodeSpaces (CHR ''x'' # s) = 0"
  by (simp add: spaceLen_def asciiSpace_def unicodeSpaces_def)

lemma spaceLen_x_rev: "spaceLen (map rev unicodeSpaces) (CHR ''x'' # s) = 0"
  by (simp add: spaceLen_def asciiSpace_def unicodeSpaces_def)

lemma spaceLen_nl: "spaceLen pats (CHR 0x0A # s) = 1"
  by (simp add: spaceLen_def asciiSpace_def)

lemma TrimSpace_xlines: "TrimSpace (xlines (Suc n)) = xlines n @ ''x''"
proof -
  have l: "trimStart unicodeSpaces (xlines (Suc n)) = xlines (Suc n)"
    by (subst trimStart.simps) (simp add: xlines_Suc spaceLen_x)
  have "rev (xlines (Suc n)) = CHR 0x0A # CHR ''x'' # rev (xlines n)"
    by (simp add: xlines_snoc)
  then have "trimStart (map rev unicodeSpaces) (rev (xlines (Suc n))) =
      trimStart (map rev unicodeSpaces) (CHR ''x'' # rev (xlines n))"
    by (subst trimStart.simps) (simp add: spaceLen_nl)
  also have "\<dots> = CHR ''x'' # rev (xlines n)"
    by (subst trimStart.simps) (simp add: spaceLen_x_rev)
  finally show ?thesis
    by (simp add: TrimSpace_def l)
qed


lemma SplitChar_xlines: "SplitChar (CHR 0x0A) (xlines n @ ''x'') = replicate (Suc n) ''x''"
  by (induction n) (simp_all add: xlines_Suc xlines_def)

lemma scanLines_xlines: "scanLines (xlines n @ ''x'') = replicate (Suc n) ''x''"
  by (simp add: scanLines_def SplitChar_xlines Let_def del: replicate.simps)

lemma TrimSpace_x: "TrimSpace ''x'' = ''x''"
proof -
  have "trimStart unicodeSpaces ''x'' = ''x''"
    by (subst trimStart.simps) (simp add: spaceLen_x)
  moreover have "trimStart (map rev unicodeSpaces) ''x'' = ''x''"
    by (subst trimStart.simps) (simp add: spaceLen_x_rev)
  ultimately show ?thesis
    by (simp add: TrimSpace_def)
qed

lemma scanLoop_xlines:
  assumes "unmarshalEvent lib ''x'' = Inl err"
  shows "scanLoop lib (replicate k ''x'') i (ev, raws, errs) =
           (ev, raws, errs @ map (\<lambda>j. \<lparr> Line = j, Reason = err \<rparr>) [i + 1 ..< i + k + 1])"
proof (induction k arbitrary: i errs)
  case 0
  then show ?case by simp
next
  case (Suc k)
  have "[i + 1 ..< i + Suc k + 1] = (i + 1) # [i + 1 + 1 ..< i + 1 + k + 1]"
    by (simp add: upt_conv_Cons)
  then show ?case
    using Suc[of "i + 1"] assms
    by (simp add: maxTokenSize_def dropCR_def TrimSpace_x)
qed

text \<open>
  C6. The \<open>errors\<close> array of the response holds at most 100 records. \<open>IngestLogs\<close> keeps
  to 100 when it appends the errors of \<open>ToRaw\<close>, but it starts from all the errors of
  \<open>parseEvents\<close>, which are not cut: for a body of \<open>n + 2\<close> lines that do not parse (up
  to a million of them) the response carries \<open>n + 2\<close> records, one per line.
\<close>

theorem parse_errors_not_capped:
  assumes "unmarshalEvent lib ''x'' = Inl err"
    and "req_Method r = ''POST''" and "req_ContentEncoding r = []"
    and "req_Body r = xlines (Suc (Suc n))" and "n \<le> 1000000"
  shows "fst (IngestLogs lib [] ch now r tr) =
           JSON 400 \<lparr> Accepted = 0, Rejected = n + 2,
                      Errors = map (\<lambda>j. \<lparr> Line = j, Reason = err \<rparr>) [1 ..< n + 3] \<rparr>"
proof -
  have "length (xlines (Suc (Suc n))) \<le> 20971520"
    using assms(5) by (simp add: length_xlines)
  then have t: "take 20971520 (xlines (Suc (Suc n))) = xlines (Suc (Suc n))"
    by (rule take_all)
  have nl: "CHR 0x0A \<in> set (xlines (Suc n) @ ''x'')"
    by (simp add: xlines_Suc)
  have np: "\<not> HasPrefix (xlines (Suc n) @ ''x'') ''[''"
    by (simp add: HasPrefix_def xlines_Suc)
  have p: "parseEvents lib (Inr (xlines (Suc (Suc n)))) =
             ([], [], map (\<lambda>j. \<lparr> Line = j, Reason = err \<rparr>) [1 ..< n + 3])"
    using nl np
    by (simp add: parseEvents_def t TrimSpace_xlines scanLines_xlines scanLoop_xlines[OF assms(1)]
          Let_def numeral_3_eq_3 del: replicate.simps upt.simps)
  have g: "maybeGzipReader lib r = Some (Inr (xlines (Suc (Suc n))))"
    using assms(3,4) by (simp add: maybeGzipReader_def EqualFoldASCII_def)
  show ?thesis
    using assms(2) by (simp add: IngestLogs_def g p numeral_3_eq_3 del: upt.simps)
qed

text \<open>An instance: the request with 101 lines is answered with 101 error records.\<close>

theorem parse_errors_not_capped_witness:
  "unmarshalEvent badJSON ''x'' = Inl ''invalid character''
   \<and> req_Method badLines = ''POST'' \<and> req_ContentEncoding badLines = []
   \<and> req_Body badLines = xlines (Suc (Suc 99)) \<and> (99 :: nat) \<le> 1000000
   \<and> length (responseErrors (fst (IngestLogs badJSON [] acceptingStore T0 badLines []))) = 101"
proof -
  have h: "unmarshalEvent badJSON ''x'' = Inl ''invalid character''"
    "req_Method badLines = ''POST''" "req_ContentEncoding badLines = []"
    "req_Body badLines = xlines (Suc (Suc 99))" "(99 :: nat) \<le> 1000000"
    by (simp_all add: badJSON_def badLines_def)
  show ?thesis
    using h parse_errors_not_capped[OF h, of acceptingStore T0 "[]"]
    by (simp add: responseErrors_def)
qed

section \<open>The window of a read request\<close>

text \<open>
  The window as the request gives it, before \<open>parseRange\<close> checks it: a bound that is
  absent or does not parse is \<open>now\<close>, or one hour before \<open>now\<close>.
\<close>

definition requestedRange :: "(string \<Rightarrow> time option) \<Rightarrow> time \<Rightarrow> string \<Rightarrow> string \<Rightarrow> time \<times> time" where
  "requestedRange parse now rawFrom rawTo =
     ((if rawFrom \<noteq> [] then (case parse rawFrom of Some parsed \<Rightarrow> parsed | None \<Rightarrow> now - Hour)
       else now - Hour),
      (if rawTo \<noteq> [] then (case parse rawTo of Some parsed \<Rightarrow> parsed | None \<Rightarrow> now) else now))"

text \<open>
  C7, as the specification states it: for an invalid window (\<open>from \<ge> to\<close>) both bounds
  are replaced and the window is \<open>[now - 1h, now]\<close>. It fails: a request on 2024-01-02
  00:00 with \<open>from\<close> = 10:00 and \<open>to\<close> = 09:00 of the day before gets the window from 08:00
  to 09:00 of that day.
\<close>

theorem parseRange_keeps_to:
  "parseRange parseExample (T0 + 24 * Hour) ''2024-01-01T10:00:00Z'' ''2024-01-01T09:00:00Z''
     = (T0 + 8 * Hour, T0 + 9 * Hour)
   \<and> (T0 + 8 * Hour, T0 + 9 * Hour) \<noteq> (T0 + 24 * Hour - Hour, T0 + 24 * Hour)"
  by (simp add: parseRange_def parseExample_def Before_def Hour_def T0_def)

text \<open>
  C7, amended: for an invalid window only \<open>from\<close> is replaced: the window is
  \<open>[to - 1h, to]\<close>, with the \<open>to\<close> of the request (or \<open>now\<close> when \<open>to\<close> is absent or does
  not parse).
\<close>

theorem parseRange_invalid_window:
  assumes "requestedRange parse now rawFrom rawTo = (f, t)" and "t \<le> f"
  shows "parseRange parse now rawFrom rawTo = (t - Hour, t)"
  using assms
  by (auto simp: parseRange_def requestedRange_def Before_def Let_def split: if_splits option.splits)

text \<open>An instance: the request of the example above.\<close>

theorem parseRange_invalid_window_witness:
  "requestedRange parseExample (T0 + 24 * Hour) ''2024-01-01T10:00:00Z'' ''2024-01-01T09:00:00Z''
     = (T0 + 10 * Hour, T0 + 9 * Hour)
   \<and> T0 + 9 * Hour \<le> T0 + 10 * Hour
   \<and> parseRange parseExample (T0 + 24 * Hour) ''2024-01-01T10:00:00Z'' ''2024-01-01T09:00:00Z''
     = (T0 + 9 * Hour - Hour, T0 + 9 * Hour)"
proof -
  have r: "requestedRange parseExample (T0 + 24 * Hour) ''2024-01-01T10:00:00Z'' ''2024-01-01T09:00:00Z''
             = (T0 + 10 * Hour, T0 + 9 * Hour)"
    by (simp add: requestedRange_def parseExample_def)
  have le: "T0 + 9 * Hour \<le> T0 + 10 * Hour"
    by (simp add: Hour_def)
  show ?thesis
    using r le parseRange_invalid_window[OF r le] by simp
qed

section \<open>Wait time and blocking ratio of the drill-down\<close>











section \<open>Trace ids that the read API refuses\<close>

text \<open>
  The part of the path that \<open>TraceByID\<close> reads as the trace id: what follows
  \<open>/v1/traces/\<close>, without slashes at its ends, up to the first slash.
\<close>

definition requestedID :: "string \<Rightarrow> string" where
  "requestedID path =
     hd (SplitChar (CHR ''/'') (TrimChar (CHR ''/'') (TrimPrefix path ''/v1/traces/'')))"

lemma sanitize_empty_iff:
  "sanitize v = [] \<longleftrightarrow> (TrimSpace v = [] \<or> (\<exists>c\<in>set (TrimSpace v). \<not> safeChar c))"
  by (auto simp: sanitize_def safeToken_def Let_def list_all_iff)

text \<open>
  C10, as stated: every trace id that trims to empty or contains a character outside
  \<open>[A-Za-z0-9._:/-]\<close> is answered with 400 and no query. It fails for ids with a slash
  or with white space at an end: the id \<open>a/b c\<close> holds a blank, yet the handler reads
  the id \<open>a\<close> from the path and queries the store for it; the id \<open>abc\<close> followed by a
  blank is trimmed to \<open>abc\<close> and queried.
\<close>

theorem TraceByID_queries_for_unsafe_id:
  "CHR '' '' \<in> set ''a/b c'' \<and> \<not> safeChar (CHR '' '')
   \<and> TraceByID id emptyStore (''/v1/traces/'' @ ''a/b c'')
       = (ApiTrace None [], [traceSQL ''a'', spanSQL ''a''])
   \<and> CHR '' '' \<in> set ''abc ''
   \<and> TraceByID id emptyStore (''/v1/traces/'' @ ''abc '')
       = (ApiTrace None [], [traceSQL ''abc'', spanSQL ''abc''])"
  by code_simp

text \<open>
  C10, amended: when the part of the path that the handler reads as the trace id is
  empty after trimming white space, or then still holds a character outside
  \<open>[A-Za-z0-9._:/-]\<close>, the answer is 400 \<open>invalid trace id\<close> and the store is not queried.
  Ingest accepts every correlation id that is not empty after trimming (with a timestamp
  that is absent or parses) and stores the trimmed text as the trace id, so a stored
  trace id with such a character cannot be read through this endpoint.
\<close>

theorem TraceByID_invalid_id:
  "(TrimSpace (requestedID path) = [] \<or> (\<exists>c\<in>set (TrimSpace (requestedID path)). \<not> safeChar c)
      \<longrightarrow> TraceByID toLower query path = (ApiError 400 ''invalid trace id'', []))
   \<and> (TrimSpace (ev_CorrelationID e) \<noteq> []
        \<and> (TrimSpace (ev_Timestamp e) = [] \<or> (\<exists>ts. parseRFC3339Nano lib (ev_Timestamp e) = Inr ts))
      \<longrightarrow> (\<exists>row ts. ToRaw lib now e raw = Inr (row, ts)
            \<and> raw_TraceID row = TrimSpace (ev_CorrelationID e)))"
proof (intro conjI impI)
  assume "TrimSpace (requestedID path) = [] \<or> (\<exists>c\<in>set (TrimSpace (requestedID path)). \<not> safeChar c)"
  then have "sanitize (requestedID path) = []"
    by (simp add: sanitize_empty_iff)
  then show "TraceByID toLower query path = (ApiError 400 ''invalid trace id'', [])"
    by (simp add: TraceByID_def requestedID_def Let_def)
next
  assume a: "TrimSpace (ev_CorrelationID e) \<noteq> []
      \<and> (TrimSpace (ev_Timestamp e) = [] \<or> (\<exists>ts. parseRFC3339Nano lib (ev_Timestamp e) = Inr ts))"
  then show "\<exists>row ts. ToRaw lib now e raw = Inr (row, ts)
      \<and> raw_TraceID row = TrimSpace (ev_CorrelationID e)"
    by (auto simp: ToRaw_def Let_def)
qed

text \<open>
  An instance: the correlation id \<open>order 42\<close> is accepted by ingest, and the request for
  the trace \<open>order 42\<close> is refused.
\<close>

theorem TraceByID_invalid_id_witness:
  "(\<exists>c\<in>set (TrimSpace (requestedID ''/v1/traces/order 42'')). \<not> safeChar c)
   \<and> TraceByID id emptyStore ''/v1/traces/order 42'' = (ApiError 400 ''invalid trace id'', [])
   \<and> TrimSpace (ev_CorrelationID (eventOf ''order 42'')) \<noteq> []
   \<and> TrimSpace (ev_Timestamp (eventOf ''order 42'')) = []
   \<and> (\<exists>row ts. ToRaw badJSON T0 (eventOf ''order 42'') [] = Inr (row, ts)
         \<and> raw_TraceID row = ''order 42'')"
proof -
  have t: "TrimSpace ''order 42'' = ''order 42''" "TrimSpace [] = []"
    by code_simp+
  have h1: "\<exists>c\<in>set (TrimSpace (requestedID ''/v1/traces/order 42'')). \<not> safeChar c"
  proof -
    have "requestedID ''/v1/traces/order 42'' = ''order 42''" by code_simp
    moreover have "CHR '' '' \<in> set ''order 42'' \<and> \<not> safeChar (CHR '' '')" by code_simp
    ultimately show ?thesis using t(1) by (metis)
  qed
  have h2: "TrimSpace (ev_CorrelationID (eventOf ''order 42'')) \<noteq> []"
    "TrimSpace (ev_Timestamp (eventOf ''order 42'')) = []"
    by (simp_all add: eventOf_def t)
  have e: "TrimSpace (ev_CorrelationID (eventOf ''order 42'')) = ''order 42''"
    by (simp add: eventOf_def t)
  show ?thesis
    using h1 h2 e
      TraceByID_invalid_id[of "''/v1/traces/order 42''" id emptyStore "eventOf ''order 42''" badJSON T0 "[]"]
    by simp
qed

end
